theory Spec2Isabelle
  imports Complex_Main "HOL-Library.Word"
begin

section \<open>Python values and errors\<close>

text \<open>
  Every exception the modelled code raises is a value of \<open>error\<close>; a function that can
  raise returns \<open>error + 'a\<close> with \<open>Inl\<close> for the exception. Python's \<open>str\<close> is a
  \<open>string\<close>; \<open>None\<close> is \<open>None\<close> of an option type.
\<close>

datatype error =
    ValueError string
  | TimeoutError rat string
  | TypeError string
  | AttributeError string
  | ValidationError string
  | SessionNotFoundError string
  | Exception string

text \<open>
  \<open>TimeoutError timeout state\<close> stands for the one message the code raises it with,
  ``Authentication timeout after \<open>timeout\<close>s for state: \<open>state\<close>''.
  \<open>ValidationError\<close> is what the library's model classes raise on a field of the wrong
  type; it is a subclass of \<open>ValueError\<close>.
\<close>

text \<open>Python truthiness of an optional string: \<open>None\<close> and \<open>""\<close> are falsy.\<close>

definition truthy :: "string option \<Rightarrow> bool" where
  "truthy v = (case v of None \<Rightarrow> False | Some s \<Rightarrow> s \<noteq> [])"

text \<open>\<open>str.split(sep)\<close> for a one-character separator: never an empty list.\<close>

fun split_py :: "char \<Rightarrow> string \<Rightarrow> string list" where
  "split_py sep [] = [[]]"
| "split_py sep (c # cs) =
     (if c = sep then [] # split_py sep cs
      else (case split_py sep cs of
              [] \<Rightarrow> [[c]]
            | w # ws \<Rightarrow> (c # w) # ws))"

section \<open>Credential key codec (gmail\_agent/callbacks.py)\<close>

text \<open>\<open>BaseGmailCallback.__init__\<close> fixes the two separators.\<close>

definition uuid_separator :: char where
  "uuid_separator = CHR ''-''"

definition session_user_separator :: char where
  "session_user_separator = CHR '':''"

text \<open>
  \<open>get_persistent_credential_key\<close>: the parameter \<open>credential_key\<close> is received and not
  used (the source marks it ``not same across subprocesses'').
\<close>

definition get_persistent_credential_key ::
  "string \<Rightarrow> string \<Rightarrow> string \<Rightarrow> string \<Rightarrow> string" where
  "get_persistent_credential_key credential_key session_id session_user_id gmail_user_id =
     session_id @ [session_user_separator] @ session_user_id
       @ [session_user_separator] @ gmail_user_id"

text \<open>
  \<open>get_session_user_from_persistent_credential_key\<close>: the last \<open>-\<close>-separated segment is
  split on \<open>:\<close> and unpacked into exactly two names; any other number of fields raises
  \<open>ValueError\<close>, as tuple unpacking does.
\<close>

definition get_session_user_from_persistent_credential_key ::
  "string \<Rightarrow> error + (string \<times> string)" where
  "get_session_user_from_persistent_credential_key credential_key_redis =
     (let uuid = last (split_py uuid_separator credential_key_redis) in
      case split_py session_user_separator uuid of
        [session_id, user_id] \<Rightarrow> Inr (session_id, user_id)
      | [_] \<Rightarrow> Inl (ValueError ''not enough values to unpack (expected 2, got 1)'')
      | _ \<Rightarrow> Inl (ValueError ''too many values to unpack (expected 2)''))"

section \<open>OAuth callback store (oauth\_callback\_handler.py)\<close>

text \<open>
  \<open>request.query_params\<close> is read only through \<open>.get\<close>, so it is a map from parameter
  name to value. The HTML page of a response is represented by its heading; the
  failure page carries the error text it interpolates.
\<close>

type_synonym query_params = "string \<rightharpoonup> string"

datatype page =
    AuthenticationFailed string
  | InvalidRequest
  | AuthenticationSuccessful

record HTMLResponse =
  page_content :: page
  status_code :: nat

text \<open>\<open>InMemoryOAuthCallbackHandler.auth_codes\<close>: a dict from state to code.\<close>

type_synonym auth_codes = "string \<rightharpoonup> string"

definition handle_callback :: "query_params \<Rightarrow> auth_codes \<Rightarrow> HTMLResponse \<times> auth_codes" where
  "handle_callback qp codes =
     (let code = qp ''code''; st = qp ''state''; err = qp ''error'' in
      if truthy err then
        (\<lparr>page_content = AuthenticationFailed (the err), status_code = 400\<rparr>, codes)
      else if \<not> truthy code \<or> \<not> truthy st then
        (\<lparr>page_content = InvalidRequest, status_code = 400\<rparr>, codes)
      else
        (\<lparr>page_content = AuthenticationSuccessful, status_code = 200\<rparr>,
         codes(the st \<mapsto> the code)))"

definition get_code :: "string \<Rightarrow> auth_codes \<Rightarrow> string option" where
  "get_code st codes = codes st"

text \<open>\<open>self.auth_codes.pop(state, None)\<close>: the value and the dict without the key.\<close>

definition consume_code :: "string \<Rightarrow> auth_codes \<Rightarrow> string option \<times> auth_codes" where
  "consume_code st codes = (codes st, codes(st := None))"

text \<open>
  The Redis variant. The client is the external key-value store: \<open>get\<close> reads a key,
  \<open>delete\<close> removes it, \<open>set(k, v, ex=ttl)\<close> stores a value with its time to live. Values
  are byte strings, decoded as they were encoded.
\<close>

type_synonym redis = "string \<rightharpoonup> (string \<times> nat option)"

definition redis_get :: "redis \<Rightarrow> string \<Rightarrow> string option" where
  "redis_get r k = map_option fst (r k)"

definition redis_delete :: "redis \<Rightarrow> string \<Rightarrow> redis" where
  "redis_delete r k = r(k := None)"

definition redis_set :: "redis \<Rightarrow> string \<Rightarrow> string \<Rightarrow> nat option \<Rightarrow> redis" where
  "redis_set r k v ex = r(k \<mapsto> (v, ex))"

definition redis_handle_callback ::
  "nat \<Rightarrow> query_params \<Rightarrow> redis \<Rightarrow> HTMLResponse \<times> redis" where
  "redis_handle_callback ttl qp r =
     (let code = qp ''code''; st = qp ''state''; err = qp ''error'' in
      if truthy err then
        (\<lparr>page_content = AuthenticationFailed (the err), status_code = 400\<rparr>, r)
      else if \<not> truthy code \<or> \<not> truthy st then
        (\<lparr>page_content = InvalidRequest, status_code = 400\<rparr>, r)
      else
        (\<lparr>page_content = AuthenticationSuccessful, status_code = 200\<rparr>,
         redis_set r (the st) (the code) (Some ttl)))"

definition redis_consume_code :: "string \<Rightarrow> redis \<Rightarrow> string option \<times> redis" where
  "redis_consume_code st r =
     (let code = redis_get r st in
      if truthy code then (code, redis_delete r st) else (None, r))"

section \<open>Events of the agent engine\<close>

text \<open>
  The event classes belong to the engine's library; they are modelled with the fields
  the code reads. A field the code tests against \<open>None\<close> is an option. The \<open>author\<close> of
  an event is a required string: constructing an event with \<open>author=None\<close> raises
  \<open>ValidationError\<close>. Values of call arguments and payloads are JSON-like Python values;
  a dict is an association list.
\<close>

datatype pyval =
    PyNone
  | PyBool bool
  | PyInt int
  | PyStr string
  | PyList "pyval list"
  | PyDict "(string \<times> pyval) list"

fun py_truthy :: "pyval \<Rightarrow> bool" where
  "py_truthy PyNone = False"
| "py_truthy (PyBool b) = b"
| "py_truthy (PyInt i) = (i \<noteq> 0)"
| "py_truthy (PyStr s) = (s \<noteq> [])"
| "py_truthy (PyList xs) = (xs \<noteq> [])"
| "py_truthy (PyDict d) = (d \<noteq> [])"

record FunctionCall =
  fc_id :: "string option"
  fc_name :: "string option"
  args :: "(string \<times> pyval) list option"

record FunctionResponse =
  fr_id :: "string option"
  fr_name :: "string option"
  response :: "(string \<times> pyval) list option"

record Part =
  part_text :: "string option"
  function_call :: "FunctionCall option"
  function_response :: "FunctionResponse option"

record Content =
  role :: "string option"
  parts :: "Part list option"

record Event =
  author :: string
  content :: "Content option"
  long_running_tool_ids :: "string set option"

text \<open>\<open>" ".join(...)\<close>\<close>

fun join_space :: "string list \<Rightarrow> string" where
  "join_space [] = []"
| "join_space [x] = x"
| "join_space (x # y # ys) = x @ '' '' @ join_space (y # ys)"

text \<open>
  \<open>default_event_parser\<close>. An \<open>Event\<close> always has the attribute \<open>content\<close> and a
  \<open>Content\<close> always has \<open>parts\<close>, so the \<open>hasattr\<close> tests hold; iterating over
  \<open>parts = None\<close> raises \<open>TypeError\<close>. \<open>str(event)\<close> is the library's rendering of an
  event, a parameter.
\<close>

definition default_event_parser :: "(Event \<Rightarrow> string) \<Rightarrow> Event \<Rightarrow> error + string" where
  "default_event_parser str_event event =
     (case content event of
        None \<Rightarrow> Inr (str_event event)
      | Some c \<Rightarrow>
          (case parts c of
             None \<Rightarrow> Inl (TypeError ''NoneType object is not iterable'')
           | Some ps \<Rightarrow>
               Inr (join_space (map (\<lambda>part. the (part_text part))
                                  (filter (\<lambda>part. part_text part \<noteq> None) ps)))))"

text \<open>\<open>default_event_filter\<close>: \<open>True\<close> suppresses the event.\<close>

definition default_event_filter :: "Event \<Rightarrow> error + bool" where
  "default_event_filter event =
     (case content event of
        None \<Rightarrow> Inr True
      | Some c \<Rightarrow>
          (case parts c of
             None \<Rightarrow> Inl (TypeError ''NoneType object is not iterable'')
           | Some ps \<Rightarrow> Inr (\<not> list_ex (\<lambda>part. part_text part \<noteq> None) ps)))"

section \<open>Python floats\<close>

text \<open>
  \<open>elapsed\<close> in the polling loop is a Python float, an IEEE 754 double, and
  \<open>elapsed += poll_interval\<close> rounds the exact sum to the nearest double, ties to the
  even mantissa. A finite float is represented by its value, a rational; adding a
  finite number to a finite float can overflow to an infinity and cannot give a NaN.
\<close>

datatype pyfloat = Finite rat | PlusInf | MinusInf

definition round_half_even :: "rat \<Rightarrow> int" where
  "round_half_even x =
     (let f = \<lfloor>x\<rfloor>; r = x - of_int f
      in if r < 1 / 2 then f else if 1 / 2 < r then f + 1 else if even f then f else f + 1)"

text \<open>The number of binary digits of a natural number.\<close>

fun bit_length :: "nat \<Rightarrow> nat" where
  "bit_length n = (if n = 0 then 0 else Suc (bit_length (n div 2)))"

declare bit_length.simps [simp del]

text \<open>For \<open>x > 0\<close>, the exponent \<open>e\<close> with \<open>2^e \<le> x < 2^(e+1)\<close>.\<close>

definition float_exponent :: "rat \<Rightarrow> int" where
  "float_exponent x =
     (if 1 \<le> x then int (bit_length (nat \<lfloor>x\<rfloor>)) - 1
      else - int (bit_length (nat \<lceil>1 / x\<rceil> - 1)))"

definition pow2 :: "int \<Rightarrow> rat" where
  "pow2 k = (if 0 \<le> k then 2 ^ nat k else 1 / 2 ^ nat (- k))"

text \<open>
  Rounding to a double with unbounded exponent range upwards: 53 significant bits, and
  the spacing of the subnormal numbers below \<open>2^-1022\<close>.
\<close>

definition round_double :: "rat \<Rightarrow> rat" where
  "round_double x =
     (if x = 0 then 0
      else (let e = max (float_exponent \<bar>x\<bar>) (- 1022); q = pow2 (e - 52)
            in of_int (round_half_even (x / q)) * q))"

text \<open>\<open>a + p\<close> for a float \<open>a\<close> and a finite float \<open>p\<close>.\<close>

definition fadd :: "pyfloat \<Rightarrow> rat \<Rightarrow> pyfloat" where
  "fadd a p =
     (case a of
        Finite x \<Rightarrow>
          (let r = round_double (x + p)
           in if 2 ^ 1024 \<le> r then PlusInf
              else if r \<le> - (2 ^ 1024) then MinusInf
              else Finite r)
      | PlusInf \<Rightarrow> PlusInf
      | MinusInf \<Rightarrow> MinusInf)"

text \<open>\<open>a < t\<close> for a float \<open>a\<close> and a finite number \<open>t\<close> (an int or a float): exact.\<close>

definition float_less :: "pyfloat \<Rightarrow> rat \<Rightarrow> bool" where
  "float_less a t = (case a of Finite x \<Rightarrow> x < t | PlusInf \<Rightarrow> False | MinusInf \<Rightarrow> True)"

section \<open>Auth config handler (google\_agent\_caller.py)\<close>

text \<open>
  The negotiation object \<open>AuthConfig\<close> is the library's; the code reads and writes it only
  along \<open>exchanged_auth_credential.oauth2\<close>. The handler's negotiation, the exchanged
  credential and its \<open>oauth2\<close> part can each be \<open>None\<close> (the application creates the
  handler with \<open>auth_config=None\<close>); the code dereferences them without a test, which
  raises \<open>AttributeError\<close> on \<open>None\<close>.
\<close>

record OAuth2Auth =
  auth_uri :: "string option"
  state :: "string option"
  auth_response_uri :: "string option"
  redirect_uri :: "string option"

record AuthCredential =
  oauth2 :: "OAuth2Auth option"

record AuthConfig =
  exchanged_auth_credential :: "AuthCredential option"

text \<open>
  The handler owns the in-memory code store (\<open>oauth_handler\<close>). \<open>poll_interval\<close> is the
  value of a finite float, in seconds.
\<close>

record AuthConfigHandler =
  auth_config :: "AuthConfig option"
  oauth_handler :: auth_codes
  redirect_uri :: string
  poll_interval :: rat

text \<open>\<open>self.auth_config.exchanged_auth_credential.oauth2\<close>\<close>

definition negotiation_oauth2 :: "AuthConfigHandler \<Rightarrow> error + OAuth2Auth" where
  "negotiation_oauth2 h =
     (case auth_config h of
        None \<Rightarrow> Inl (AttributeError ''NoneType object has no attribute exchanged_auth_credential'')
      | Some cfg \<Rightarrow>
          (case exchanged_auth_credential cfg of
             None \<Rightarrow> Inl (AttributeError ''NoneType object has no attribute oauth2'')
           | Some cred \<Rightarrow>
               (case oauth2 cred of
                  None \<Rightarrow> Inl (AttributeError ''NoneType object has no attribute state'')
                | Some o2 \<Rightarrow> Inr o2)))"

text \<open>
  While the task is suspended in \<open>asyncio.sleep\<close>, the callback endpoint may serve
  requests. The environment lists, for each sleep in turn, the callbacks served during
  it; once the list is used up nothing more arrives.
\<close>

type_synonym arrivals = "query_params list list"

definition deliver :: "query_params list \<Rightarrow> auth_codes \<Rightarrow> auth_codes" where
  "deliver cbs codes = foldl (\<lambda>s qp. snd (handle_callback qp s)) codes cbs"

definition sleep :: "AuthConfigHandler \<Rightarrow> arrivals \<Rightarrow> AuthConfigHandler \<times> arrivals" where
  "sleep h env =
     (case env of
        [] \<Rightarrow> (h, [])
      | cbs # rest \<Rightarrow> (h\<lparr>oauth_handler := deliver cbs (oauth_handler h)\<rparr>, rest))"

text \<open>
  The body of \<open>wait_for_user_authentication\<close> on finding a code: both URIs are written
  into the \<open>oauth2\<close> part of the negotiation.
\<close>

definition complete_auth_config ::
  "AuthConfigHandler \<Rightarrow> string \<Rightarrow> string \<Rightarrow> error + AuthConfig" where
  "complete_auth_config h code st =
     (case auth_config h of
        None \<Rightarrow> Inl (AttributeError ''NoneType object has no attribute exchanged_auth_credential'')
      | Some cfg \<Rightarrow>
          (case exchanged_auth_credential cfg of
             None \<Rightarrow> Inl (AttributeError ''NoneType object has no attribute oauth2'')
           | Some cred \<Rightarrow>
               (case oauth2 cred of
                  None \<Rightarrow> Inl (AttributeError ''NoneType object has no attribute auth_response_uri'')
                | Some o2 \<Rightarrow>
                    (let uri = AuthConfigHandler.redirect_uri h @ ''?code='' @ code
                                 @ ''&state='' @ st
                     in Inr (cfg\<lparr>exchanged_auth_credential :=
                               Some (cred\<lparr>oauth2 :=
                                  Some (o2\<lparr>auth_response_uri := Some uri,
                                           OAuth2Auth.redirect_uri :=
                                             Some (AuthConfigHandler.redirect_uri h)\<rparr>)\<rparr>)\<rparr>)))))"

text \<open>
  The polling loop. The last component of the result counts the calls of
  \<open>consume_code\<close> made. The loop need not end (a poll interval of zero or less never
  advances \<open>elapsed\<close>, and a float stops growing once the interval is below half its
  spacing), so not returning is the value \<open>None\<close>.
\<close>

partial_function (option) wait_loop ::
  "AuthConfigHandler \<Rightarrow> string \<Rightarrow> rat \<Rightarrow> pyfloat \<Rightarrow> arrivals \<Rightarrow> nat
     \<Rightarrow> ((error + AuthConfig) \<times> AuthConfigHandler \<times> arrivals \<times> nat) option" where
  "wait_loop h st timeout elapsed env polls =
     (if float_less elapsed timeout then
        (let code = fst (consume_code st (oauth_handler h));
             h1 = h\<lparr>oauth_handler := snd (consume_code st (oauth_handler h))\<rparr>
         in if truthy code then
              (case complete_auth_config h1 (the code) st of
                 Inl e \<Rightarrow> Some (Inl e, h1, env, Suc polls)
               | Inr cfg \<Rightarrow> Some (Inr cfg, h1\<lparr>auth_config := Some cfg\<rparr>, env, Suc polls))
            else
              wait_loop (fst (sleep h1 env)) st timeout (fadd elapsed (poll_interval h))
                (snd (sleep h1 env)) (Suc polls))
      else Some (Inl (TimeoutError timeout st), h, env, polls))"

definition wait_for_user_authentication ::
  "AuthConfigHandler \<Rightarrow> rat \<Rightarrow> arrivals
     \<Rightarrow> ((error + AuthConfig) \<times> AuthConfigHandler \<times> arrivals \<times> nat) option" where
  "wait_for_user_authentication h timeout env =
     (case negotiation_oauth2 h of
        Inl e \<Rightarrow> Some (Inl e, h, env, 0)
      | Inr o2 \<Rightarrow>
          (if \<not> truthy (state o2) then
             Some (Inl (ValueError ''State not found in auth_config''), h, env, 0)
           else wait_loop h (the (state o2)) timeout (Finite 0) env 0))"

text \<open>
  For stating what the loop does: the handler and the environment after \<open>k\<close> rounds of
  the loop body in which the poll found no code (the poll removes whatever is stored
  for the state, then the task sleeps), and the value of \<open>elapsed\<close> after \<open>k\<close> additions
  of the poll interval.
\<close>

fun after_failed_polls ::
  "nat \<Rightarrow> string \<Rightarrow> AuthConfigHandler \<Rightarrow> arrivals \<Rightarrow> AuthConfigHandler \<times> arrivals" where
  "after_failed_polls 0 st h env = (h, env)"
| "after_failed_polls (Suc k) st h env =
     (let h1 = h\<lparr>oauth_handler := snd (consume_code st (oauth_handler h))\<rparr>
      in after_failed_polls k st (fst (sleep h1 env)) (snd (sleep h1 env)))"

fun accumulate :: "nat \<Rightarrow> pyfloat \<Rightarrow> rat \<Rightarrow> pyfloat" where
  "accumulate 0 elapsed p = elapsed"
| "accumulate (Suc k) elapsed p = accumulate k (fadd elapsed p) p"

section \<open>Auth interceptor (google\_agent\_caller.py)\<close>

text \<open>
  \<open>AuthConfig.model_validate\<close> and \<open>AuthConfig.model_dump\<close> are the library's conversion
  between a dict and the negotiation object; they are parameters of the model.
\<close>

record adk =
  model_validate :: "(string \<times> pyval) list \<Rightarrow> error + AuthConfig"
  model_dump :: "AuthConfig \<Rightarrow> (string \<times> pyval) list"

record AuthInterceptor =
  auth_config_handler :: "AuthConfigHandler option"
  agent_name :: "string option"

definition set_auth_config ::
  "adk \<Rightarrow> AuthConfigHandler \<Rightarrow> (string \<times> pyval) list \<Rightarrow> error + AuthConfigHandler" where
  "set_auth_config lib h d =
     (case model_validate lib d of
        Inl e \<Rightarrow> Inl e
      | Inr cfg \<Rightarrow> Inr (h\<lparr>auth_config := Some cfg\<rparr>))"

text \<open>The condition of the loop in \<open>get_auth_request_function_call\<close>, for one part.\<close>

definition is_auth_request_part :: "Event \<Rightarrow> Part \<Rightarrow> bool" where
  "is_auth_request_part event part =
     (case function_call part of
        None \<Rightarrow> False
      | Some fc \<Rightarrow>
          fc_name fc = Some ''adk_request_credential''
          \<and> (case long_running_tool_ids event of
                None \<Rightarrow> False
              | Some ids \<Rightarrow> ids \<noteq> {} \<and> (case fc_id fc of None \<Rightarrow> False | Some i \<Rightarrow> i \<in> ids)))"

definition get_auth_request_function_call :: "Event \<Rightarrow> FunctionCall option" where
  "get_auth_request_function_call event =
     (case content event of
        None \<Rightarrow> None
      | Some c \<Rightarrow>
          (case parts c of
             None \<Rightarrow> None
           | Some ps \<Rightarrow>
               (case find (is_auth_request_part event) ps of
                  None \<Rightarrow> None
                | Some part \<Rightarrow> function_call part)))"

definition is_auth_event :: "Event \<Rightarrow> bool" where
  "is_auth_event event = (get_auth_request_function_call event \<noteq> None)"

text \<open>
  \<open>Event(author=self.agent_name, content=...)\<close>: the constructor validates the author.
\<close>

definition new_event :: "string option \<Rightarrow> Content \<Rightarrow> error + Event" where
  "new_event a c =
     (case a of
        None \<Rightarrow> Inl (ValidationError ''author: Input should be a valid string'')
      | Some name \<Rightarrow> Inr \<lparr>author = name, content = Some c, long_running_tool_ids = None\<rparr>)"

definition ask_user_for_authentication :: "AuthInterceptor \<Rightarrow> error + Event" where
  "ask_user_for_authentication self =
     (case auth_config_handler self of
        None \<Rightarrow> Inl (AttributeError ''NoneType object has no attribute auth_config'')
      | Some h \<Rightarrow>
          (case negotiation_oauth2 h of
             Inl e \<Rightarrow> Inl e
           | Inr o2 \<Rightarrow>
               (let base_auth_uri = auth_uri o2;
                    st = state o2
                in if \<not> truthy base_auth_uri then
                     Inl (ValueError ''Auth URI not found in auth_config'')
                   else if \<not> truthy st then Inl (ValueError ''State not found in auth_config'')
                   else
                     (let auth_request_uri =
                            the base_auth_uri @ ''&redirect_uri='' @ AuthConfigHandler.redirect_uri h
                      in new_event (agent_name self)
                           \<lparr>role = Some ''model'',
                            parts = Some [\<lparr>part_text = Some (''AUTH_REQUIRED: '' @ auth_request_uri),
                                           function_call = None,
                                           function_response = None\<rparr>]\<rparr>))))"

definition create_event_with_code_credentials ::
  "adk \<Rightarrow> AuthInterceptor \<Rightarrow> string \<Rightarrow> AuthConfig \<Rightarrow> error + Event" where
  "create_event_with_code_credentials lib self auth_request_function_call_id cfg =
     new_event (agent_name self)
       \<lparr>role = Some ''user'',
        parts = Some [\<lparr>part_text = None,
                       function_call = None,
                       function_response =
                         Some \<lparr>fr_id = Some auth_request_function_call_id,
                               fr_name = Some ''adk_request_credential'',
                               response = Some (model_dump lib cfg)\<rparr>\<rparr>]\<rparr>"

text \<open>
  \<open>intercept_auth_event\<close> is a generator with two \<open>yield\<close>s. Its first part runs up to
  the first \<open>yield\<close>: the checks, \<open>set_auth_config\<close> and the user-facing event. The result
  carries the interceptor as the code leaves it, also when it raises. The messages of
  the \<open>ValueError\<close>s are given without the object the code appends to them.
\<close>

definition intercept_begin ::
  "adk \<Rightarrow> AuthInterceptor \<Rightarrow> Event \<Rightarrow> (error + (Event \<times> string)) \<times> AuthInterceptor" where
  "intercept_begin lib self event =
     (if \<not> is_auth_event event then
        (Inl (ValueError ''Event does not contain an auth request''), self)
      else
        (let auth_request_function_call = the (get_auth_request_function_call event) in
         if \<not> truthy (fc_id auth_request_function_call) then
           (Inl (ValueError ''Cannot get function call id from: ''), self)
         else
           (let function_call_id = the (fc_id auth_request_function_call) in
            case args auth_request_function_call of
              None \<Rightarrow> (Inl (ValueError ''Cannot get auth config from: ''), self)
            | Some a \<Rightarrow>
                (if a = [] then (Inl (ValueError ''Cannot get auth config from: ''), self)
                 else
                   (case map_of a ''authConfig'' of
                      None \<Rightarrow> (Inl (ValueError ''Cannot get auth config from: ''), self)
                    | Some v \<Rightarrow>
                        (if \<not> py_truthy v then
                           (Inl (ValueError ''Cannot get auth config from: ''), self)
                         else
                           (case v of
                              PyDict d \<Rightarrow>
                                (case auth_config_handler self of
                                   None \<Rightarrow>
                                     (Inl (AttributeError
                                        ''NoneType object has no attribute set_auth_config''), self)
                                 | Some h \<Rightarrow>
                                     (case set_auth_config lib h d of
                                        Inl e \<Rightarrow> (Inl e, self)
                                      | Inr h' \<Rightarrow>
                                          (let self' = self\<lparr>auth_config_handler := Some h'\<rparr> in
                                           case ask_user_for_authentication self' of
                                             Inl e \<Rightarrow> (Inl e, self')
                                           | Inr ev \<Rightarrow> (Inr (ev, function_call_id), self'))))
                            | _ \<Rightarrow> (Inl (ValueError ''authConfig is not a dict: ''), self))))))))"

text \<open>
  The second part runs from the first \<open>yield\<close> to the second: the blocking wait with its
  default timeout of 300 seconds, then the resumption event. The handler is present
  here, since the first part has used it.
\<close>

definition intercept_resume ::
  "adk \<Rightarrow> AuthInterceptor \<Rightarrow> string \<Rightarrow> arrivals
     \<Rightarrow> ((error + Event) \<times> AuthInterceptor \<times> arrivals \<times> nat) option" where
  "intercept_resume lib self function_call_id env =
     (case auth_config_handler self of
        None \<Rightarrow> Some (Inl (AttributeError
                  ''NoneType object has no attribute wait_for_user_authentication''), self, env, 0)
      | Some h \<Rightarrow>
          (case wait_for_user_authentication h 300 env of
             None \<Rightarrow> None
           | Some (Inl e, h', env', polls) \<Rightarrow>
               Some (Inl e, self\<lparr>auth_config_handler := Some h'\<rparr>, env', polls)
           | Some (Inr updated_auth_config, h', env', polls) \<Rightarrow>
               (let self' = self\<lparr>auth_config_handler := Some h'\<rparr> in
                Some (create_event_with_code_credentials lib self' function_call_id
                        updated_auth_config, self', env', polls))))"

text \<open>
  The generator run to its end: the events it yields in order, the exception that ends
  it if one does, the interceptor and the environment afterwards, and the number of
  polls made.
\<close>

definition intercept_auth_event ::
  "adk \<Rightarrow> AuthInterceptor \<Rightarrow> Event \<Rightarrow> arrivals
     \<Rightarrow> (Event list \<times> error option \<times> AuthInterceptor \<times> arrivals \<times> nat) option" where
  "intercept_auth_event lib self event env =
     (case intercept_begin lib self event of
        (Inl e, self') \<Rightarrow> Some ([], Some e, self', env, 0)
      | (Inr (ask, function_call_id), self') \<Rightarrow>
          (case intercept_resume lib self' function_call_id env of
             None \<Rightarrow> None
           | Some (Inl e, self'', env', polls) \<Rightarrow> Some ([ask], Some e, self'', env', polls)
           | Some (Inr response_event, self'', env', polls) \<Rightarrow>
               Some ([ask, response_event], None, self'', env', polls)))"

section \<open>Agent caller (google\_agent\_caller.py)\<close>

text \<open>
  The caller's collaborators are parameters: \<open>session_service\<close> is the service's
  \<open>get_session(app_name, session_id, user_id)\<close>, the only method of it the code calls;
  \<open>runner\<close> is the engine's \<open>run_async(user_id, session_id, new_message)\<close>, which gives
  for the \<open>k\<close>-th run of a call the events it produces and the exception that ends the
  run, if one does; the parser and the filter are the pluggable policies.
\<close>

record 's AgentCallerGoogle =
  auth_interceptor :: AuthInterceptor
  app_name :: string
  session_service :: "string \<Rightarrow> string \<Rightarrow> string \<Rightarrow> error + 's option"
  event_parser :: "Event \<Rightarrow> error + string"
  event_filter :: "Event \<Rightarrow> error + bool"
  runner :: "nat \<Rightarrow> string \<Rightarrow> string \<Rightarrow> Content \<Rightarrow> Event list \<times> error option"

definition is_event_auth_response :: "Event \<Rightarrow> bool" where
  "is_event_auth_response event =
     (case content event of
        None \<Rightarrow> False
      | Some c \<Rightarrow>
          (case parts c of
             None \<Rightarrow> False
           | Some ps \<Rightarrow>
               list_ex (\<lambda>part. case function_response part of
                                 None \<Rightarrow> False
                               | Some fr \<Rightarrow> fr_name fr = Some ''adk_request_credential'') ps))"

text \<open>
  \<open>check_session_exists\<close>: a \<open>ValueError\<close> of the service (or of a subclass) counts as
  no session.
\<close>

definition check_session_exists ::
  "'s AgentCallerGoogle \<Rightarrow> string \<Rightarrow> string \<Rightarrow> error + bool" where
  "check_session_exists self sid uid =
     (case session_service self (app_name self) sid uid of
        Inr session \<Rightarrow> Inr (session \<noteq> None)
      | Inl (ValueError m) \<Rightarrow> Inr False
      | Inl (ValidationError m) \<Rightarrow> Inr False
      | Inl e \<Rightarrow> Inl e)"

text \<open>\<open>if not self.event_filter(e): yield self.event_parser(e)\<close>: what is yielded.\<close>

definition emit :: "'s AgentCallerGoogle \<Rightarrow> Event \<Rightarrow> error + string list" where
  "emit self event =
     (case event_filter self event of
        Inl e \<Rightarrow> Inl e
      | Inr True \<Rightarrow> Inr []
      | Inr False \<Rightarrow>
          (case event_parser self event of
             Inl e \<Rightarrow> Inl e
           | Inr s \<Rightarrow> Inr [s]))"

text \<open>The body of the loop over the interceptor's events: the next message and what is yielded.\<close>

definition handle_auth_event ::
  "'s AgentCallerGoogle \<Rightarrow> Content \<Rightarrow> Event \<Rightarrow> error + (Content \<times> string list)" where
  "handle_auth_event self new_message auth_event =
     (if is_event_auth_response auth_event then Inr (the (content auth_event), [])
      else (case emit self auth_event of
              Inl e \<Rightarrow> Inl e
            | Inr out \<Rightarrow> Inr (new_message, out)))"

text \<open>
  One pass over the events of an engine run. The result holds what was yielded, then
  \<open>Inl e\<close> when an exception ended the pass, \<open>Inr (Some m)\<close> when an auth event was met
  and the loop left with \<open>m\<close> as the next message, \<open>Inr None\<close> when every event was
  consumed.
\<close>

fun consume_events ::
  "'s AgentCallerGoogle \<Rightarrow> adk \<Rightarrow> AuthInterceptor \<Rightarrow> arrivals \<Rightarrow> Content \<Rightarrow> Event list
     \<Rightarrow> (string list \<times> (error + Content option) \<times> AuthInterceptor \<times> arrivals) option" where
  "consume_events self lib icpt env new_message [] = Some ([], Inr None, icpt, env)"
| "consume_events self lib icpt env new_message (event # rest) =
     (if is_auth_event event then
        (case intercept_begin lib icpt event of
           (Inl e, icpt1) \<Rightarrow> Some ([], Inl e, icpt1, env)
         | (Inr (ask, function_call_id), icpt1) \<Rightarrow>
             (case handle_auth_event self new_message ask of
                Inl e \<Rightarrow> Some ([], Inl e, icpt1, env)
              | Inr (msg1, out1) \<Rightarrow>
                  (case intercept_resume lib icpt1 function_call_id env of
                     None \<Rightarrow> None
                   | Some (Inl e, icpt2, env2, polls) \<Rightarrow> Some (out1, Inl e, icpt2, env2)
                   | Some (Inr response_event, icpt2, env2, polls) \<Rightarrow>
                       (case handle_auth_event self msg1 response_event of
                          Inl e \<Rightarrow> Some (out1, Inl e, icpt2, env2)
                        | Inr (msg2, out2) \<Rightarrow>
                            Some (out1 @ out2, Inr (Some msg2), icpt2, env2)))))
      else
        (case emit self event of
           Inl e \<Rightarrow> Some ([], Inl e, icpt, env)
         | Inr out \<Rightarrow>
             (case consume_events self lib icpt env new_message rest of
                None \<Rightarrow> None
              | Some (outs, r, icpt', env') \<Rightarrow> Some (out @ outs, r, icpt', env'))))"

text \<open>
  The \<open>while credentials_needed or first_call\<close> loop. \<open>k\<close> counts the engine runs started
  and \<open>outs\<close> collects what has been yielded. An engine that asks for credentials on
  every run keeps the loop going for ever: not returning is \<open>None\<close>.
\<close>

partial_function (option) run_loop ::
  "'s AgentCallerGoogle \<Rightarrow> adk \<Rightarrow> string \<Rightarrow> string \<Rightarrow> Content \<Rightarrow> AuthInterceptor \<Rightarrow> arrivals
     \<Rightarrow> nat \<Rightarrow> string list
     \<Rightarrow> (string list \<times> error option \<times> AuthInterceptor \<times> arrivals \<times> nat) option" where
  "run_loop self lib sid uid new_message icpt env k outs =
     (case consume_events self lib icpt env new_message
             (fst (runner self k uid sid new_message)) of
        None \<Rightarrow> None
      | Some (out, Inl e, icpt', env') \<Rightarrow> Some (outs @ out, Some e, icpt', env', Suc k)
      | Some (out, Inr (Some msg), icpt', env') \<Rightarrow>
          run_loop self lib sid uid msg icpt' env' (Suc k) (outs @ out)
      | Some (out, Inr None, icpt', env') \<Rightarrow>
          Some (outs @ out, snd (runner self k uid sid new_message), icpt', env', Suc k))"

text \<open>
  \<open>call_agent_async\<close> run to its end: the strings yielded in order, the exception that
  ends the generator if one does, the interceptor and the environment afterwards, and
  the number of engine runs started.
\<close>

definition call_agent_async ::
  "'s AgentCallerGoogle \<Rightarrow> adk \<Rightarrow> string \<Rightarrow> string \<Rightarrow> string \<Rightarrow> arrivals
     \<Rightarrow> (string list \<times> error option \<times> AuthInterceptor \<times> arrivals \<times> nat) option" where
  "call_agent_async self lib message sid uid env =
     (let new_message =
            \<lparr>role = None,
             parts = Some [\<lparr>part_text = Some message, function_call = None,
                            function_response = None\<rparr>]\<rparr>
      in case check_session_exists self sid uid of
           Inl e \<Rightarrow> Some ([], Some e, auth_interceptor self, env, 0)
         | Inr False \<Rightarrow> Some ([], Some (SessionNotFoundError sid), auth_interceptor self, env, 0)
         | Inr True \<Rightarrow> run_loop self lib sid uid new_message (auth_interceptor self) env 0 [])"

text \<open>What the default policies yield for one event that has a list of parts or no content.\<close>

definition default_output :: "Event \<Rightarrow> string list" where
  "default_output e =
     (case content e of
        None \<Rightarrow> []
      | Some c \<Rightarrow>
          (case parts c of
             None \<Rightarrow> []
           | Some ps \<Rightarrow>
               (if \<exists>p \<in> set ps. part_text p \<noteq> None
                then [join_space (map (\<lambda>p. the (part_text p))
                                    (filter (\<lambda>p. part_text p \<noteq> None) ps))]
                else [])))"

section \<open>Canonical credential key (gmail\_agent/callbacks.py)\<close>

text \<open>\<open>str\<close> of a Python int, as an f-string renders it.\<close>

definition digit_char :: "nat \<Rightarrow> char" where
  "digit_char d = ''0123456789'' ! d"

fun str_nat :: "nat \<Rightarrow> string" where
  "str_nat n = (if n < 10 then [digit_char n] else str_nat (n div 10) @ [digit_char (n mod 10)])"

declare str_nat.simps [simp del]

definition str_int :: "int \<Rightarrow> string" where
  "str_int i = (if i < 0 then CHR ''-'' # str_nat (nat (- i)) else str_nat (nat i))"

text \<open>
  The scheme and the credential are the library's objects. An object has an identity
  (its address, \<open>id(obj)\<close>); the codec reads the name of the scheme's type, the value of
  the credential's type, and the JSON text \<open>model_dump_json()\<close> of each. Python's \<open>hash\<close>
  of a string is a parameter: the hash function of the running process, a signed 64-bit
  number that depends on the text and on the seed of the process.
\<close>

record AuthScheme =
  scheme_object_id :: nat
  scheme_type_name :: string
  scheme_model_dump_json :: string

record RawAuthCredential =
  credential_object_id :: nat
  auth_type_value :: string
  credential_model_dump_json :: string

definition get_credential_key_from_auth_scheme_and_credential ::
  "(string \<Rightarrow> 64 word) \<Rightarrow> AuthScheme \<Rightarrow> RawAuthCredential \<Rightarrow> string" where
  "get_credential_key_from_auth_scheme_and_credential hash auth_scheme auth_credential =
     (let scheme_name = scheme_type_name auth_scheme @ ''_''
              @ str_int (sint (hash (scheme_model_dump_json auth_scheme)));
          credential_name = auth_type_value auth_credential @ ''_''
              @ str_int (sint (hash (credential_model_dump_json auth_credential)))
      in scheme_name @ ''_'' @ credential_name @ ''_existing_exchanged_credential'')"

definition get_temporary_credential_key ::
  "(string \<Rightarrow> 64 word) \<Rightarrow> AuthScheme \<Rightarrow> RawAuthCredential \<Rightarrow> string" where
  "get_temporary_credential_key hash auth_scheme auth_credential =
     (let scheme_name = scheme_type_name auth_scheme @ ''_''
              @ str_int (sint (hash (scheme_model_dump_json auth_scheme)));
          credential_name = auth_type_value auth_credential @ ''_''
              @ str_int (sint (hash (credential_model_dump_json auth_credential)))
      in ''temp:adk_'' @ scheme_name @ ''_'' @ credential_name)"

section \<open>Tool callback after invocation (gmail\_agent/callbacks.py)\<close>

text \<open>
  \<open>redis_client\<close> is \<open>None\<close> when no Redis URL is configured. The tool context gives the
  session's id and user id and the run's transient state, a dict in which a deleted
  credential is stored as \<open>None\<close>.
\<close>

record BaseGmailCallback =
  redis_client :: "redis option"
  auth_scheme :: AuthScheme
  auth_credential :: RawAuthCredential

record Session =
  sess_id :: string
  sess_user_id :: string

record ToolContext =
  session :: Session
  tc_state :: "string \<rightharpoonup> pyval"

text \<open>\<open>d.get(k, default)\<close>: only a dict has the method.\<close>

fun dict_get :: "pyval \<Rightarrow> string \<Rightarrow> pyval \<Rightarrow> error + pyval" where
  "dict_get (PyDict d) k dflt = Inr (case map_of d k of None \<Rightarrow> dflt | Some v \<Rightarrow> v)"
| "dict_get v k dflt = Inl (AttributeError ''object has no attribute get'')"

definition connector_input_user_id :: "(string \<times> pyval) list \<Rightarrow> error + pyval" where
  "connector_input_user_id a =
     (case dict_get (PyDict a) ''connector_input_payload'' (PyDict []) of
        Inl e \<Rightarrow> Inl e
      | Inr payload \<Rightarrow>
          (case dict_get payload ''Path parameters'' (PyDict []) of
             Inl e \<Rightarrow> Inl e
           | Inr path_parameters \<Rightarrow> dict_get path_parameters ''userId'' PyNone))"

text \<open>
  \<open>GmailToolAfterCallback.__call__\<close>. \<open>json.dumps\<close> is a parameter. The result holds what
  the call returns or raises, and the durable store, the tool context and the call
  arguments as the call leaves them.
\<close>

record after_result =
  returned :: "error + (string \<times> pyval) list"
  redis_after :: "redis option"
  tool_context_after :: ToolContext
  args_after :: "(string \<times> pyval) list"

definition gmail_tool_after_callback ::
  "(string \<Rightarrow> 64 word) \<Rightarrow> (pyval \<Rightarrow> string) \<Rightarrow> BaseGmailCallback \<Rightarrow> (string \<times> pyval) list
     \<Rightarrow> ToolContext \<Rightarrow> (string \<times> pyval) list \<Rightarrow> after_result" where
  "gmail_tool_after_callback hash json_dumps self a tool_context tool_response =
     (let unchanged = \<lparr>returned = Inr tool_response, redis_after = redis_client self,
                       tool_context_after = tool_context, args_after = a\<rparr>
      in case connector_input_user_id a of
           Inl e \<Rightarrow> unchanged\<lparr>returned := Inl e\<rparr>
         | Inr PyNone \<Rightarrow> unchanged
         | Inr (PyStr gmail_user_id) \<Rightarrow>
             (let credential_key = get_credential_key_from_auth_scheme_and_credential hash
                                     (auth_scheme self) (auth_credential self);
                  credential_key_redis = get_persistent_credential_key credential_key
                                     (sess_id (session tool_context))
                                     (sess_user_id (session tool_context)) gmail_user_id;
                  credential = (case tc_state tool_context credential_key of
                                  None \<Rightarrow> PyNone | Some v \<Rightarrow> v)
              in case redis_client self of
                   None \<Rightarrow> unchanged
                 | Some r \<Rightarrow>
                     (if credential \<noteq> PyNone then
                        unchanged\<lparr>redis_after :=
                          Some (redis_set r credential_key_redis (json_dumps credential) None)\<rparr>
                      else unchanged))
         | Inr v \<Rightarrow> unchanged\<lparr>returned := Inl (TypeError ''can only concatenate str to str'')\<rparr>)"

section \<open>Server-sent events (run\_agent\_sse\_api.py)\<close>

record AgentRequest =
  req_app_name :: string
  user_id :: string
  session_id :: string
  new_message :: string
  streaming :: bool
  state_delta :: "(string \<times> pyval) list option"

text \<open>
  A frame is the text \<open>data: \<close> followed by the JSON of a dict and a blank line; it is
  represented by the dict's items in order.
\<close>

datatype frame = Data "(string \<times> string) list"

definition map_response_to_sse :: "string \<Rightarrow> AgentRequest \<Rightarrow> frame" where
  "map_response_to_sse resp req =
     Data [(''type'', ''agent_response''), (''content'', resp),
           (''session_id'', session_id req), (''user_id'', user_id req)]"

definition completion_frame :: "AgentRequest \<Rightarrow> frame" where
  "completion_frame req =
     Data [(''type'', ''completion''), (''session_id'', session_id req), (''user_id'', user_id req)]"

definition error_frame :: "string \<Rightarrow> AgentRequest \<Rightarrow> frame" where
  "error_frame msg req =
     Data [(''type'', ''error''), (''error'', msg),
           (''session_id'', session_id req), (''user_id'', user_id req)]"

text \<open>
  \<open>generate_stream\<close>. The underlying stream \<open>chat_use_case.execute(req)\<close> is the list of
  responses it yields and the exception that ends it, if one does. The \<open>try\<close> body maps
  each response to a frame; the \<open>except\<close> clause re-raises as its first statement, so
  the statements after it, which build the error frame, are never reached; the
  \<open>finally\<close> clause yields the completion frame, after which a re-raised exception
  leaves the generator.
\<close>

definition generate_stream ::
  "AgentRequest \<Rightarrow> string list \<times> error option \<Rightarrow> frame list \<times> error option" where
  "generate_stream req stream =
     (let try_frames = map (\<lambda>resp. map_response_to_sse resp req) (fst stream);
          except_frames = (case snd stream of None \<Rightarrow> [] | Some e \<Rightarrow> []);
          finally_frames = [completion_frame req]
      in (try_frames @ except_frames @ finally_frames, snd stream))"

section \<open>Example values\<close>

text \<open>A negotiation as the engine sends it, and handlers holding it.\<close>

definition example_auth_config :: AuthConfig where
  "example_auth_config =
     \<lparr>exchanged_auth_credential =
        Some \<lparr>oauth2 = Some \<lparr>auth_uri = Some ''https://idp.example/auth?client_id=app'',
                             state = Some ''xyz'',
                             auth_response_uri = None,
                             OAuth2Auth.redirect_uri = None\<rparr>\<rparr>\<rparr>"

definition example_auth_config_without_state :: AuthConfig where
  "example_auth_config_without_state =
     \<lparr>exchanged_auth_credential =
        Some \<lparr>oauth2 = Some \<lparr>auth_uri = Some ''https://idp.example/auth?client_id=app'',
                             state = None,
                             auth_response_uri = None,
                             OAuth2Auth.redirect_uri = None\<rparr>\<rparr>\<rparr>"

definition example_handler ::
  "AuthConfig option \<Rightarrow> auth_codes \<Rightarrow> rat \<Rightarrow> AuthConfigHandler" where
  "example_handler cfg codes interval =
     \<lparr>auth_config = cfg, oauth_handler = codes,
      redirect_uri = ''http://localhost:8001/callback'', poll_interval = interval\<rparr>"

text \<open>The callback \<open>/callback?code=abc&state=xyz\<close>.\<close>

definition example_callback :: query_params where
  "example_callback = [''code'' \<mapsto> ''abc'', ''state'' \<mapsto> ''xyz'']"

text \<open>The float \<open>0.1\<close>: the double nearest to one tenth.\<close>

definition float_0_1 :: rat where
  "float_0_1 = 3602879701896397 / 36028797018963968"

section \<open>Properties of the credential key codec\<close>

lemma split_py_nonempty: "split_py sep s \<noteq> []"
  by (induction s) (auto split: list.splits)

lemma split_py_append:
  "sep \<notin> set a \<Longrightarrow> split_py sep (a @ sep # r) = a # split_py sep r"
  by (induction a) (auto split: list.splits)

text \<open>
  C1 (as amended). For every canonical key \<open>ck\<close>, session id \<open>sid\<close>, user id \<open>uid\<close> and
  external account id \<open>gid\<close> where the two ids contain no \<open>:\<close>, the persistent key is
  \<open>sid:uid:gid\<close>; the canonical key is not part of it (any other canonical key gives
  the same persistent key) and the separator \<open>-\<close> is not used; splitting the key on
  \<open>:\<close> gives \<open>sid\<close> and \<open>uid\<close> as its first two fields.
\<close>

theorem persistent_key_fields:
  assumes "CHR '':'' \<notin> set sid" and "CHR '':'' \<notin> set uid"
  shows "get_persistent_credential_key ck sid uid gid = sid @ '':'' @ uid @ '':'' @ gid
       \<and> get_persistent_credential_key ck sid uid gid
           = get_persistent_credential_key ck' sid uid gid
       \<and> take 2 (split_py session_user_separator (get_persistent_credential_key ck sid uid gid))
           = [sid, uid]"
  using assms
  by (simp add: get_persistent_credential_key_def session_user_separator_def split_py_append)

theorem persistent_key_fields_witness:
  "get_persistent_credential_key ''k'' ''s1'' ''u1'' ''me'' = ''s1'' @ '':'' @ ''u1'' @ '':'' @ ''me''
   \<and> get_persistent_credential_key ''k'' ''s1'' ''u1'' ''me''
       = get_persistent_credential_key ''other'' ''s1'' ''u1'' ''me''
   \<and> take 2 (split_py session_user_separator
         (get_persistent_credential_key ''k'' ''s1'' ''u1'' ''me'')) = [''s1'', ''u1'']"
proof -
  have h1: "CHR '':'' \<notin> set ''s1''" by simp
  have h2: "CHR '':'' \<notin> set ''u1''" by simp
  show ?thesis by (rule persistent_key_fields [OF h1 h2])
qed

text \<open>
  The claim as first stated fails: with canonical key \<open>k\<close>, session \<open>s1\<close>, user \<open>u1\<close> and
  account \<open>me\<close> the persistent key is \<open>s1:u1:me\<close>, which does not hold the canonical
  key, and the decoder applied to it raises instead of returning \<open>(s1, u1)\<close>.
\<close>

theorem persistent_key_roundtrip_counterexample:
  "get_persistent_credential_key ''k'' ''s1'' ''u1'' ''me'' = ''s1:u1:me''
   \<and> get_session_user_from_persistent_credential_key
         (get_persistent_credential_key ''k'' ''s1'' ''u1'' ''me'')
       = Inl (ValueError ''too many values to unpack (expected 2)'')"
  by (simp add: get_persistent_credential_key_def session_user_separator_def
      get_session_user_from_persistent_credential_key_def uuid_separator_def)

section \<open>Properties of the OAuth callback store\<close>

text \<open>
  C5. \<open>consume_code\<close> is a destructive single-use read. In the in-memory store, when a
  code is stored for a state the first call returns it and removes the entry, so that a
  second call returns nothing; for a state with no code it returns nothing; the entries
  of other states are left alone. The Redis variant does the same for a stored code
  (a code that \<open>handle_callback\<close> stores is never empty).
\<close>

theorem consume_code_single_use:
  "(codes st = Some c \<longrightarrow>
      fst (consume_code st codes) = Some c
      \<and> snd (consume_code st codes) st = None
      \<and> fst (consume_code st (snd (consume_code st codes))) = None)
   \<and> (codes st = None \<longrightarrow> fst (consume_code st codes) = None)
   \<and> (\<forall>other. other \<noteq> st \<longrightarrow> snd (consume_code st codes) other = codes other)
   \<and> (redis_get r st = Some c \<and> c \<noteq> [] \<longrightarrow>
      fst (redis_consume_code st r) = Some c
      \<and> redis_get (snd (redis_consume_code st r)) st = None
      \<and> fst (redis_consume_code st (snd (redis_consume_code st r))) = None)
   \<and> (redis_get r st = None \<longrightarrow> fst (redis_consume_code st r) = None)"
  by (auto simp add: consume_code_def redis_consume_code_def redis_get_def redis_delete_def truthy_def
      split: option.splits)

theorem consume_code_single_use_witness:
  "fst (consume_code ''s'' [''s'' \<mapsto> ''abc'']) = Some ''abc''
   \<and> snd (consume_code ''s'' [''s'' \<mapsto> ''abc'']) ''s'' = None
   \<and> fst (consume_code ''s'' (snd (consume_code ''s'' [''s'' \<mapsto> ''abc'']))) = None
   \<and> fst (consume_code ''t'' [''s'' \<mapsto> ''abc'']) = None
   \<and> snd (consume_code ''t'' [''s'' \<mapsto> ''abc'']) ''s'' = Some ''abc''
   \<and> fst (redis_consume_code ''s'' [''s'' \<mapsto> (''abc'', Some 300)]) = Some ''abc''
   \<and> redis_get (snd (redis_consume_code ''s'' [''s'' \<mapsto> (''abc'', Some 300)])) ''s'' = None
   \<and> fst (redis_consume_code ''s'' (snd (redis_consume_code ''s'' [''s'' \<mapsto> (''abc'', Some 300)]))) = None
   \<and> fst (redis_consume_code ''t'' [''s'' \<mapsto> (''abc'', Some 300)]) = None"
  using consume_code_single_use [of "[''s'' \<mapsto> ''abc'']" "''s''" "''abc''" "[''s'' \<mapsto> (''abc'', Some 300)]"]
        consume_code_single_use [of "[''s'' \<mapsto> ''abc'']" "''t''" "''abc''" "[''s'' \<mapsto> (''abc'', Some 300)]"]
  by (simp add: redis_get_def)

text \<open>
  C7. \<open>handle_callback\<close> has three paths. With an \<open>error\<close> parameter (present and not
  empty) it answers with the failure page and leaves the store as it is; otherwise,
  with \<open>code\<close> or \<open>state\<close> missing (absent or empty), it answers with the invalid-request
  page and leaves the store as it is; otherwise it stores \<open>code\<close> under \<open>state\<close>, over any
  earlier value, and answers with the success page. The store changes on no path but the
  last.
\<close>

theorem handle_callback_paths:
  "(truthy (qp ''error'') \<longrightarrow>
      handle_callback qp codes
        = (\<lparr>page_content = AuthenticationFailed (the (qp ''error'')), status_code = 400\<rparr>, codes))
   \<and> (\<not> truthy (qp ''error'') \<and> (\<not> truthy (qp ''code'') \<or> \<not> truthy (qp ''state'')) \<longrightarrow>
      handle_callback qp codes = (\<lparr>page_content = InvalidRequest, status_code = 400\<rparr>, codes))
   \<and> (\<not> truthy (qp ''error'') \<and> truthy (qp ''code'') \<and> truthy (qp ''state'') \<longrightarrow>
      handle_callback qp codes
        = (\<lparr>page_content = AuthenticationSuccessful, status_code = 200\<rparr>,
           codes(the (qp ''state'') \<mapsto> the (qp ''code''))))
   \<and> (snd (handle_callback qp codes) \<noteq> codes \<longrightarrow>
        page_content (fst (handle_callback qp codes)) = AuthenticationSuccessful)"
  by (auto simp add: handle_callback_def Let_def)

theorem handle_callback_paths_witness:
  "handle_callback [''error'' \<mapsto> ''access_denied'', ''code'' \<mapsto> ''c1'', ''state'' \<mapsto> ''s1''] [''s1'' \<mapsto> ''old'']
     = (\<lparr>page_content = AuthenticationFailed ''access_denied'', status_code = 400\<rparr>, [''s1'' \<mapsto> ''old''])
   \<and> handle_callback [''code'' \<mapsto> ''c1''] [''s1'' \<mapsto> ''old'']
     = (\<lparr>page_content = InvalidRequest, status_code = 400\<rparr>, [''s1'' \<mapsto> ''old''])
   \<and> handle_callback [''code'' \<mapsto> ''c1'', ''state'' \<mapsto> ''s1''] [''s1'' \<mapsto> ''old'']
     = (\<lparr>page_content = AuthenticationSuccessful, status_code = 200\<rparr>, [''s1'' \<mapsto> ''c1''])
   \<and> page_content (fst (handle_callback [''code'' \<mapsto> ''c1'', ''state'' \<mapsto> ''s1''] [''s1'' \<mapsto> ''old'']))
     = AuthenticationSuccessful"
  using handle_callback_paths [of "[''error'' \<mapsto> ''access_denied'', ''code'' \<mapsto> ''c1'', ''state'' \<mapsto> ''s1'']" "[''s1'' \<mapsto> ''old'']"]
        handle_callback_paths [of "[''code'' \<mapsto> ''c1'']" "[''s1'' \<mapsto> ''old'']"]
        handle_callback_paths [of "[''code'' \<mapsto> ''c1'', ''state'' \<mapsto> ''s1'']" "[''s1'' \<mapsto> ''old'']"]
  by (simp add: truthy_def)

section \<open>Properties of the event stream\<close>

lemma generate_stream_frames:
  "generate_stream req (rs, raised)
     = (map (\<lambda>r. map_response_to_sse r req) rs @ [completion_frame req], raised)"
  by (simp add: generate_stream_def split: option.splits)

text \<open>
  C4 (the code departs from the claim). Every run emits one \<open>agent_response\<close> frame per
  response, in order, then one completion frame (\<open>generate_stream_frames\<close>). When the
  underlying stream raises, no error frame is emitted: on the stream that yields
  ``Initial response'' and then raises, the frames are the one response frame and the
  completion frame, and the exception leaves the generator.
\<close>

theorem generate_stream_faulty:
  "generate_stream
      \<lparr>req_app_name = ''weather_time_agent'', user_id = ''user456'', session_id = ''session123'',
       new_message = ''Hello, agent!'', streaming = False, state_delta = None\<rparr>
      ([''Initial response''], Some (Exception ''Simulated agent failure''))
   = ([Data [(''type'', ''agent_response''), (''content'', ''Initial response''),
             (''session_id'', ''session123''), (''user_id'', ''user456'')],
       Data [(''type'', ''completion''), (''session_id'', ''session123''), (''user_id'', ''user456'')]],
      Some (Exception ''Simulated agent failure''))"
  by (simp add: generate_stream_def map_response_to_sse_def completion_frame_def)

text \<open>
  C6. When the session service has no session for the session id and user id (it returns
  \<open>None\<close>, or raises \<open>ValueError\<close>), \<open>call_agent_async\<close> yields nothing and fails with the
  session-not-found error carrying that session id; no engine run is started, and the
  interceptor and the environment are as before. The call reads the session service
  only through \<open>get_session\<close>, so it creates no session.
\<close>

theorem call_agent_async_session_not_found:
  assumes "session_service self (app_name self) sid uid = Inr None
           \<or> (\<exists>m. session_service self (app_name self) sid uid = Inl (ValueError m))"
  shows "call_agent_async self lib message sid uid env
           = Some ([], Some (SessionNotFoundError sid), auth_interceptor self, env, 0)"
  using assms
  by (auto simp add: call_agent_async_def check_session_exists_def)

theorem call_agent_async_session_not_found_witness:
  "call_agent_async
     \<lparr>auth_interceptor = \<lparr>auth_config_handler = None, agent_name = None\<rparr>,
      app_name = ''a1'',
      session_service = (\<lambda>a s u. (Inr None :: error + unit option)),
      event_parser = default_event_parser (\<lambda>e. ''event''),
      event_filter = default_event_filter,
      runner = (\<lambda>k u s m. ([], None))\<rparr>
     \<lparr>model_validate = (\<lambda>d. Inl (ValueError ''invalid'')), model_dump = (\<lambda>c. [])\<rparr>
     ''hello'' ''s1'' ''u1'' []
   = Some ([], Some (SessionNotFoundError ''s1''), \<lparr>auth_config_handler = None, agent_name = None\<rparr>, [], 0)"
  using call_agent_async_session_not_found
    [of "\<lparr>auth_interceptor = \<lparr>auth_config_handler = None, agent_name = None\<rparr>,
      app_name = ''a1'',
      session_service = (\<lambda>a s u. (Inr None :: error + unit option)),
      event_parser = default_event_parser (\<lambda>e. ''event''),
      event_filter = default_event_filter,
      runner = (\<lambda>k u s m. ([], None))\<rparr>" "''s1''" "''u1''"
      "\<lparr>model_validate = (\<lambda>d. Inl (ValueError ''invalid'')), model_dump = (\<lambda>c. [])\<rparr>" "''hello''" "[]"]
  by simp

lemma default_event_filter_parts:
  "content e = Some c \<Longrightarrow> parts c = Some ps \<Longrightarrow>
     default_event_filter e = Inr (\<not> (\<exists>p \<in> set ps. part_text p \<noteq> None))"
  by (simp add: default_event_filter_def list_ex_iff)

lemma default_event_filter_no_content:
  "content e = None \<Longrightarrow> default_event_filter e = Inr True"
  by (simp add: default_event_filter_def)

lemma default_event_parser_parts:
  "content e = Some c \<Longrightarrow> parts c = Some ps \<Longrightarrow>
     default_event_parser str_event e
       = Inr (join_space (map (\<lambda>p. the (part_text p)) (filter (\<lambda>p. part_text p \<noteq> None) ps)))"
  by (simp add: default_event_parser_def)

lemma emit_default_text:
  assumes "event_filter self = default_event_filter"
    and "event_parser self = default_event_parser str_event"
    and "content e = Some c" and "parts c = Some ps"
  shows "emit self e
     = Inr (if \<exists>p \<in> set ps. part_text p \<noteq> None
            then [join_space (map (\<lambda>p. the (part_text p)) (filter (\<lambda>p. part_text p \<noteq> None) ps))]
            else [])"
proof -
  have f: "event_filter self e = Inr (\<not> (\<exists>p \<in> set ps. part_text p \<noteq> None))"
    using assms by (simp add: default_event_filter_def list_ex_iff)
  have p: "event_parser self e
     = Inr (join_space (map (\<lambda>p. the (part_text p)) (filter (\<lambda>p. part_text p \<noteq> None) ps)))"
    using assms by (simp add: default_event_parser_def)
  show ?thesis
  proof (cases "\<exists>p \<in> set ps. part_text p \<noteq> None")
    case True
    then show ?thesis unfolding emit_def f p by simp
  next
    case False
    then show ?thesis unfolding emit_def f p by simp
  qed
qed

lemma emit_default_no_content:
  assumes "event_filter self = default_event_filter" and "content e = None"
  shows "emit self e = Inr []"
  using assms by (simp add: emit_def default_event_filter_def)

lemma consume_events_default:
  assumes "event_filter self = default_event_filter"
    and "event_parser self = default_event_parser str_event"
    and "\<forall>e \<in> set events. \<not> is_auth_event e
           \<and> (\<forall>c. content e = Some c \<longrightarrow> parts c \<noteq> None)"
  shows "consume_events self lib icpt env msg events
           = Some (concat (map default_output events), Inr None, icpt, env)"
  using assms(3)
proof (induction events)
  case Nil
  then show ?case by simp
next
  case (Cons e es)
  have na: "\<not> is_auth_event e" using Cons.prems by simp
  have em: "emit self e = Inr (default_output e)"
  proof (cases "content e")
    case None
    then show ?thesis using emit_default_no_content [OF assms(1)] by (simp add: default_output_def)
  next
    case (Some c)
    then obtain ps where ps: "parts c = Some ps" using Cons.prems by auto
    show ?thesis
      using emit_default_text [OF assms(1) assms(2) Some ps] Some ps
      by (simp add: default_output_def)
  qed
  have ih: "consume_events self lib icpt env msg es
           = Some (concat (map default_output es), Inr None, icpt, env)"
    using Cons by simp
  show ?case using na em ih by simp
qed

lemma call_agent_async_plain_run:
  assumes "session_service self (app_name self) sid uid = Inr (Some s)"
    and "event_filter self = default_event_filter"
    and "event_parser self = default_event_parser str_event"
    and "runner self 0 uid sid
           \<lparr>role = None, parts = Some [\<lparr>part_text = Some message, function_call = None,
                                          function_response = None\<rparr>]\<rparr> = (events, raised)"
    and "\<forall>e \<in> set events. \<not> is_auth_event e
           \<and> (\<forall>c. content e = Some c \<longrightarrow> parts c \<noteq> None)"
  shows "call_agent_async self lib message sid uid env
           = Some (concat (map default_output events), raised, auth_interceptor self, env, 1)"
  using assms(1,4)
  by (simp add: call_agent_async_def check_session_exists_def
      run_loop.simps [of self lib sid uid _ "auth_interceptor self" env 0 "[]"]
      consume_events_default [OF assms(2) assms(3) assms(5)])

text \<open>
  C9 (the code departs from the claim). For an event with no content, and for an event
  whose content has a list of parts, the filter suppresses exactly the events with no
  text part and the parser joins the text parts with single spaces
  (\<open>default_event_filter_no_content\<close>, \<open>default_event_filter_parts\<close>,
  \<open>default_event_parser_parts\<close>), and a run of such events without an auth event yields
  the joined text of every event that has a text part, in order, and nothing else
  (\<open>call_agent_async_plain_run\<close>). For an event whose content has \<open>parts = None\<close>, which
  has no text part and is not an auth event, the filter raises \<open>TypeError\<close> instead of
  returning \<open>True\<close>, and a run that produces this event ends with that exception.
\<close>

theorem default_event_filter_parts_none:
  "default_event_filter
     \<lparr>author = ''agent'', content = Some \<lparr>role = Some ''model'', parts = None\<rparr>,
      long_running_tool_ids = None\<rparr>
   = Inl (TypeError ''NoneType object is not iterable'')
   \<and> is_auth_event
     \<lparr>author = ''agent'', content = Some \<lparr>role = Some ''model'', parts = None\<rparr>,
      long_running_tool_ids = None\<rparr> = False
   \<and> call_agent_async
     \<lparr>auth_interceptor = \<lparr>auth_config_handler = None, agent_name = None\<rparr>,
      app_name = ''a1'',
      session_service = (\<lambda>a s u. (Inr (Some ()) :: error + unit option)),
      event_parser = default_event_parser (\<lambda>e. ''event''),
      event_filter = default_event_filter,
      runner = (\<lambda>k u s m.
        ([\<lparr>author = ''agent'', content = Some \<lparr>role = Some ''model'', parts = None\<rparr>,
           long_running_tool_ids = None\<rparr>], None))\<rparr>
     \<lparr>model_validate = (\<lambda>d. Inl (ValueError ''invalid'')), model_dump = (\<lambda>c. [])\<rparr>
     ''hello'' ''s1'' ''u1'' []
   = Some ([], Some (TypeError ''NoneType object is not iterable''),
           \<lparr>auth_config_handler = None, agent_name = None\<rparr>, [], 1)"
  by (simp add: default_event_filter_def is_auth_event_def get_auth_request_function_call_def
      call_agent_async_def check_session_exists_def run_loop.simps emit_def)

section \<open>Properties of the canonical key\<close>













section \<open>Properties of the tool callback\<close>

text \<open>
  C10 (as amended). The after-invocation callback leaves the tool context and the call
  arguments as they are, for every input. Whenever it returns, it returns the
  \<open>tool_response\<close> it was given, unchanged; it returns for every input on which the
  lookup of the external account id along \<open>connector_input_payload\<close>,
  \<open>Path parameters\<close>, \<open>userId\<close> meets only dicts and gives \<open>None\<close> or a string. The durable
  store changes only when the external account id is present and a credential other
  than \<open>None\<close> is in the transient state under the canonical key; then, with a Redis
  client configured, the credential's JSON is stored under the persistent key.
\<close>

theorem gmail_tool_after_callback_frame:
  "tool_context_after (gmail_tool_after_callback hash json_dumps self a tc resp) = tc
   \<and> args_after (gmail_tool_after_callback hash json_dumps self a tc resp) = a
   \<and> (\<forall>x. returned (gmail_tool_after_callback hash json_dumps self a tc resp) = Inr x \<longrightarrow> x = resp)
   \<and> (connector_input_user_id a = Inr PyNone \<or> (\<exists>g. connector_input_user_id a = Inr (PyStr g)) \<longrightarrow>
        returned (gmail_tool_after_callback hash json_dumps self a tc resp) = Inr resp)
   \<and> (redis_after (gmail_tool_after_callback hash json_dumps self a tc resp) \<noteq> redis_client self \<longrightarrow>
        (\<exists>g. connector_input_user_id a = Inr (PyStr g))
        \<and> (\<exists>cred. tc_state tc (get_credential_key_from_auth_scheme_and_credential hash
                        (auth_scheme self) (auth_credential self)) = Some cred \<and> cred \<noteq> PyNone))
   \<and> (\<forall>g r cred. connector_input_user_id a = Inr (PyStr g) \<and> redis_client self = Some r
         \<and> tc_state tc (get_credential_key_from_auth_scheme_and_credential hash
                        (auth_scheme self) (auth_credential self)) = Some cred \<and> cred \<noteq> PyNone \<longrightarrow>
        redis_after (gmail_tool_after_callback hash json_dumps self a tc resp)
          = Some (redis_set r
                   (get_persistent_credential_key
                      (get_credential_key_from_auth_scheme_and_credential hash
                         (auth_scheme self) (auth_credential self))
                      (sess_id (session tc)) (sess_user_id (session tc)) g)
                   (json_dumps cred) None))"
  by (auto simp add: gmail_tool_after_callback_def Let_def
      split: sum.splits pyval.splits option.splits if_splits)

theorem gmail_tool_after_callback_frame_witness:
  "returned (gmail_tool_after_callback (\<lambda>x. 5) (\<lambda>v. ''json'')
      \<lparr>redis_client = Some Map.empty,
       auth_scheme = \<lparr>scheme_object_id = 1, scheme_type_name = ''oauth2'', scheme_model_dump_json = ''{}''\<rparr>,
       auth_credential = \<lparr>credential_object_id = 2, auth_type_value = ''oauth2'', credential_model_dump_json = ''{}''\<rparr>\<rparr>
      [(''connector_input_payload'', PyDict [(''Path parameters'', PyDict [(''userId'', PyStr ''me'')])])]
      \<lparr>session = \<lparr>sess_id = ''s1'', sess_user_id = ''u1''\<rparr>,
       tc_state = [get_credential_key_from_auth_scheme_and_credential (\<lambda>x. 5)
                     \<lparr>scheme_object_id = 1, scheme_type_name = ''oauth2'', scheme_model_dump_json = ''{}''\<rparr>
                     \<lparr>credential_object_id = 2, auth_type_value = ''oauth2'', credential_model_dump_json = ''{}''\<rparr>
                   \<mapsto> PyDict [(''oauth2'', PyDict [(''access_token'', PyStr ''t'')])]]\<rparr>
      [(''status'', PyStr ''ok'')])
   = Inr [(''status'', PyStr ''ok'')]
   \<and> redis_after (gmail_tool_after_callback (\<lambda>x. 5) (\<lambda>v. ''json'')
      \<lparr>redis_client = Some Map.empty,
       auth_scheme = \<lparr>scheme_object_id = 1, scheme_type_name = ''oauth2'', scheme_model_dump_json = ''{}''\<rparr>,
       auth_credential = \<lparr>credential_object_id = 2, auth_type_value = ''oauth2'', credential_model_dump_json = ''{}''\<rparr>\<rparr>
      [(''connector_input_payload'', PyDict [(''Path parameters'', PyDict [(''userId'', PyStr ''me'')])])]
      \<lparr>session = \<lparr>sess_id = ''s1'', sess_user_id = ''u1''\<rparr>,
       tc_state = [get_credential_key_from_auth_scheme_and_credential (\<lambda>x. 5)
                     \<lparr>scheme_object_id = 1, scheme_type_name = ''oauth2'', scheme_model_dump_json = ''{}''\<rparr>
                     \<lparr>credential_object_id = 2, auth_type_value = ''oauth2'', credential_model_dump_json = ''{}''\<rparr>
                   \<mapsto> PyDict [(''oauth2'', PyDict [(''access_token'', PyStr ''t'')])]]\<rparr>
      [(''status'', PyStr ''ok'')])
   = Some (redis_set Map.empty ''s1:u1:me'' ''json'' None)
   \<and> returned (gmail_tool_after_callback (\<lambda>x. 5) (\<lambda>v. ''json'')
      \<lparr>redis_client = Some Map.empty,
       auth_scheme = \<lparr>scheme_object_id = 1, scheme_type_name = ''oauth2'', scheme_model_dump_json = ''{}''\<rparr>,
       auth_credential = \<lparr>credential_object_id = 2, auth_type_value = ''oauth2'', credential_model_dump_json = ''{}''\<rparr>\<rparr>
      [(''query'', PyStr ''x'')]
      \<lparr>session = \<lparr>sess_id = ''s1'', sess_user_id = ''u1''\<rparr>, tc_state = Map.empty\<rparr>
      [(''status'', PyStr ''ok'')])
   = Inr [(''status'', PyStr ''ok'')]"
  using gmail_tool_after_callback_frame
     [of "\<lambda>x. 5" "\<lambda>v. ''json''"
      "\<lparr>redis_client = Some Map.empty,
       auth_scheme = \<lparr>scheme_object_id = 1, scheme_type_name = ''oauth2'', scheme_model_dump_json = ''{}''\<rparr>,
       auth_credential = \<lparr>credential_object_id = 2, auth_type_value = ''oauth2'', credential_model_dump_json = ''{}''\<rparr>\<rparr>"
      "[(''connector_input_payload'', PyDict [(''Path parameters'', PyDict [(''userId'', PyStr ''me'')])])]"
      "\<lparr>session = \<lparr>sess_id = ''s1'', sess_user_id = ''u1''\<rparr>,
       tc_state = [get_credential_key_from_auth_scheme_and_credential (\<lambda>x. 5)
                     \<lparr>scheme_object_id = 1, scheme_type_name = ''oauth2'', scheme_model_dump_json = ''{}''\<rparr>
                     \<lparr>credential_object_id = 2, auth_type_value = ''oauth2'', credential_model_dump_json = ''{}''\<rparr>
                   \<mapsto> PyDict [(''oauth2'', PyDict [(''access_token'', PyStr ''t'')])]]\<rparr>"
      "[(''status'', PyStr ''ok'')]"]
    gmail_tool_after_callback_frame
     [of "\<lambda>x. 5" "\<lambda>v. ''json''"
      "\<lparr>redis_client = Some Map.empty,
       auth_scheme = \<lparr>scheme_object_id = 1, scheme_type_name = ''oauth2'', scheme_model_dump_json = ''{}''\<rparr>,
       auth_credential = \<lparr>credential_object_id = 2, auth_type_value = ''oauth2'', credential_model_dump_json = ''{}''\<rparr>\<rparr>"
      "[(''query'', PyStr ''x'')]"
      "\<lparr>session = \<lparr>sess_id = ''s1'', sess_user_id = ''u1''\<rparr>, tc_state = Map.empty\<rparr>"
      "[(''status'', PyStr ''ok'')]"]
  by (simp add: connector_input_user_id_def get_persistent_credential_key_def session_user_separator_def)

text \<open>
  The claim as first stated fails: the callback does not return for every input. With
  \<open>connector_input_payload\<close> given as \<open>None\<close> the second \<open>.get\<close> raises \<open>AttributeError\<close>, and
  with the number 5 as \<open>userId\<close> building the persistent key raises \<open>TypeError\<close>.
\<close>

theorem gmail_tool_after_callback_raises_counterexample:
  "returned (gmail_tool_after_callback (\<lambda>x. 5) (\<lambda>v. ''json'')
      \<lparr>redis_client = Some Map.empty,
       auth_scheme = \<lparr>scheme_object_id = 1, scheme_type_name = ''oauth2'', scheme_model_dump_json = ''{}''\<rparr>,
       auth_credential = \<lparr>credential_object_id = 2, auth_type_value = ''oauth2'', credential_model_dump_json = ''{}''\<rparr>\<rparr>
      [(''connector_input_payload'', PyNone)]
      \<lparr>session = \<lparr>sess_id = ''s1'', sess_user_id = ''u1''\<rparr>, tc_state = Map.empty\<rparr>
      [(''status'', PyStr ''ok'')])
   = Inl (AttributeError ''object has no attribute get'')
   \<and> returned (gmail_tool_after_callback (\<lambda>x. 5) (\<lambda>v. ''json'')
      \<lparr>redis_client = Some Map.empty,
       auth_scheme = \<lparr>scheme_object_id = 1, scheme_type_name = ''oauth2'', scheme_model_dump_json = ''{}''\<rparr>,
       auth_credential = \<lparr>credential_object_id = 2, auth_type_value = ''oauth2'', credential_model_dump_json = ''{}''\<rparr>\<rparr>
      [(''connector_input_payload'', PyDict [(''Path parameters'', PyDict [(''userId'', PyInt 5)])])]
      \<lparr>session = \<lparr>sess_id = ''s1'', sess_user_id = ''u1''\<rparr>, tc_state = Map.empty\<rparr>
      [(''status'', PyStr ''ok'')])
   = Inl (TypeError ''can only concatenate str to str'')"
  by (simp add: gmail_tool_after_callback_def connector_input_user_id_def)

section \<open>Properties of the polling wait\<close>

lemma sleep_fields:
  "poll_interval (fst (sleep h env)) = poll_interval h"
  "AuthConfigHandler.redirect_uri (fst (sleep h env)) = AuthConfigHandler.redirect_uri h"
  "auth_config (fst (sleep h env)) = auth_config h"
  by (simp_all add: sleep_def split: list.splits)

lemma after_failed_polls_fields:
  "poll_interval (fst (after_failed_polls k st h env)) = poll_interval h
   \<and> AuthConfigHandler.redirect_uri (fst (after_failed_polls k st h env)) = AuthConfigHandler.redirect_uri h
   \<and> auth_config (fst (after_failed_polls k st h env)) = auth_config h"
  by (induction k arbitrary: h env) (simp_all add: Let_def sleep_fields)

lemma complete_auth_config_cong:
  "auth_config h = auth_config h' \<Longrightarrow>
   AuthConfigHandler.redirect_uri h = AuthConfigHandler.redirect_uri h' \<Longrightarrow>
   complete_auth_config h code st = complete_auth_config h' code st"
  by (simp add: complete_auth_config_def split: option.splits)

lemma negotiation_oauth2_cong:
  "auth_config h = auth_config h' \<Longrightarrow> negotiation_oauth2 h = negotiation_oauth2 h'"
  by (simp add: negotiation_oauth2_def)

lemma complete_auth_config_present:
  assumes "negotiation_oauth2 h = Inr o2"
  shows "\<exists>cfg. complete_auth_config h code st = Inr cfg
           \<and> negotiation_oauth2 (h\<lparr>oauth_handler := codes, auth_config := Some cfg\<rparr>)
               = Inr (o2\<lparr>auth_response_uri :=
                            Some (AuthConfigHandler.redirect_uri h @ ''?code='' @ code @ ''&state='' @ st),
                          OAuth2Auth.redirect_uri := Some (AuthConfigHandler.redirect_uri h)\<rparr>)"
  using assms
  by (auto simp add: negotiation_oauth2_def complete_auth_config_def Let_def
      split: option.splits)

lemma wait_loop_found:
  assumes "float_less elapsed timeout" and "oauth_handler h st = Some code" and "code \<noteq> []"
    and "complete_auth_config h code st = Inr cfg"
  shows "wait_loop h st timeout elapsed env polls
         = Some (Inr cfg, h\<lparr>oauth_handler := (oauth_handler h)(st := None),
                            auth_config := Some cfg\<rparr>, env, Suc polls)"
proof -
  have c: "complete_auth_config (h\<lparr>oauth_handler := (oauth_handler h)(st := None)\<rparr>) code st = Inr cfg"
    using assms(4) complete_auth_config_cong [of "h\<lparr>oauth_handler := (oauth_handler h)(st := None)\<rparr>" h code st]
    by simp
  show ?thesis
    using assms(1-3) c
    by (subst wait_loop.simps) (simp add: consume_code_def truthy_def Let_def)
qed

lemma wait_loop_not_found:
  assumes "float_less elapsed timeout" and "\<not> truthy (oauth_handler h st)"
  shows "wait_loop h st timeout elapsed env polls
         = wait_loop (fst (after_failed_polls 1 st h env)) st timeout (fadd elapsed (poll_interval h))
             (snd (after_failed_polls 1 st h env)) (Suc polls)"
  using assms
  by (subst wait_loop.simps) (simp add: consume_code_def Let_def)

lemma wait_loop_expired:
  assumes "\<not> float_less elapsed timeout"
  shows "wait_loop h st timeout elapsed env polls = Some (Inl (TimeoutError timeout st), h, env, polls)"
  using assms by (subst wait_loop.simps) simp

lemma after_failed_polls_Suc:
  "after_failed_polls (Suc k) st h env
     = after_failed_polls k st (fst (after_failed_polls 1 st h env)) (snd (after_failed_polls 1 st h env))"
  by (simp add: Let_def)

lemma wait_loop_success:
  assumes "\<forall>j\<le>k. float_less (accumulate j elapsed (poll_interval h)) timeout"
    and "\<forall>j<k. \<not> truthy (oauth_handler (fst (after_failed_polls j st h env)) st)"
    and "oauth_handler (fst (after_failed_polls k st h env)) st = Some code"
    and "code \<noteq> []"
    and "complete_auth_config h code st = Inr cfg"
  shows "wait_loop h st timeout elapsed env polls
         = Some (Inr cfg,
                 (fst (after_failed_polls k st h env))
                   \<lparr>oauth_handler := (oauth_handler (fst (after_failed_polls k st h env)))(st := None),
                    auth_config := Some cfg\<rparr>,
                 snd (after_failed_polls k st h env), polls + Suc k)"
  using assms
proof (induction k arbitrary: h env elapsed polls)
  case 0
  have lt: "float_less elapsed timeout" using "0.prems"(1) by simp
  have f: "oauth_handler h st = Some code" using "0.prems"(3) by simp
  show ?case
    by (simp only: after_failed_polls.simps fst_conv snd_conv
        wait_loop_found [OF lt f "0.prems"(4) "0.prems"(5)] add_Suc_right add_0_right)
next
  case (Suc k)
  let ?h = "fst (after_failed_polls 1 st h env)"
  let ?env = "snd (after_failed_polls 1 st h env)"
  have flds: "poll_interval ?h = poll_interval h"
    "AuthConfigHandler.redirect_uri ?h = AuthConfigHandler.redirect_uri h"
    "auth_config ?h = auth_config h"
    using after_failed_polls_fields [of 1 st h env] by simp_all
  have lt: "float_less elapsed timeout" using Suc.prems(1) [rule_format, of 0] by simp
  have nf: "\<not> truthy (oauth_handler h st)" using Suc.prems(2) [rule_format, of 0] by simp
  have step: "wait_loop h st timeout elapsed env polls
         = wait_loop ?h st timeout (fadd elapsed (poll_interval h)) ?env (Suc polls)"
    by (rule wait_loop_not_found [OF lt nf])
  have a1: "\<forall>j\<le>k. float_less (accumulate j (fadd elapsed (poll_interval h)) (poll_interval ?h)) timeout"
  proof (intro allI impI)
    fix j assume "j \<le> k"
    then have "Suc j \<le> Suc k" by simp
    then have "float_less (accumulate (Suc j) elapsed (poll_interval h)) timeout"
      using Suc.prems(1) by blast
    then show "float_less (accumulate j (fadd elapsed (poll_interval h)) (poll_interval ?h)) timeout"
      by (simp only: accumulate.simps flds(1) simp_thms)
  qed
  have a2: "\<forall>j<k. \<not> truthy (oauth_handler (fst (after_failed_polls j st ?h ?env)) st)"
  proof (intro allI impI)
    fix j assume "j < k"
    then have "Suc j < Suc k" by simp
    then have "\<not> truthy (oauth_handler (fst (after_failed_polls (Suc j) st h env)) st)"
      using Suc.prems(2) by blast
    then show "\<not> truthy (oauth_handler (fst (after_failed_polls j st ?h ?env)) st)"
      unfolding after_failed_polls_Suc .
  qed
  have a3: "oauth_handler (fst (after_failed_polls k st ?h ?env)) st = Some code"
    using Suc.prems(3) unfolding after_failed_polls_Suc .
  have a5: "complete_auth_config ?h code st = Inr cfg"
    using Suc.prems(5) complete_auth_config_cong [of ?h h code st] flds by simp
  from Suc.IH [OF a1 a2 a3 Suc.prems(4) a5, of "Suc polls"]
  show ?case
    unfolding step by (simp only: after_failed_polls_Suc [symmetric]) simp
qed

lemma wait_loop_timeout:
  assumes "\<forall>j<K. float_less (accumulate j elapsed (poll_interval h)) timeout
                  \<and> \<not> truthy (oauth_handler (fst (after_failed_polls j st h env)) st)"
    and "\<not> float_less (accumulate K elapsed (poll_interval h)) timeout"
  shows "wait_loop h st timeout elapsed env polls
         = Some (Inl (TimeoutError timeout st), fst (after_failed_polls K st h env),
                 snd (after_failed_polls K st h env), polls + K)"
  using assms
proof (induction K arbitrary: h env elapsed polls)
  case 0
  then show ?case using wait_loop_expired by simp
next
  case (Suc K)
  let ?h = "fst (after_failed_polls 1 st h env)"
  let ?env = "snd (after_failed_polls 1 st h env)"
  have pi: "poll_interval ?h = poll_interval h"
    using after_failed_polls_fields [of 1 st h env] by simp
  have lt: "float_less elapsed timeout" using Suc.prems(1) [rule_format, of 0] by simp
  have nf: "\<not> truthy (oauth_handler h st)" using Suc.prems(1) [rule_format, of 0] by simp
  have step: "wait_loop h st timeout elapsed env polls
         = wait_loop ?h st timeout (fadd elapsed (poll_interval h)) ?env (Suc polls)"
    by (rule wait_loop_not_found [OF lt nf])
  have a1: "\<forall>j<K. float_less (accumulate j (fadd elapsed (poll_interval h)) (poll_interval ?h)) timeout
                  \<and> \<not> truthy (oauth_handler (fst (after_failed_polls j st ?h ?env)) st)"
  proof (intro allI impI)
    fix j assume "j < K"
    then have "Suc j < Suc K" by simp
    then have "float_less (accumulate (Suc j) elapsed (poll_interval h)) timeout
                  \<and> \<not> truthy (oauth_handler (fst (after_failed_polls (Suc j) st h env)) st)"
      using Suc.prems(1) by blast
    then show "float_less (accumulate j (fadd elapsed (poll_interval h)) (poll_interval ?h)) timeout
                  \<and> \<not> truthy (oauth_handler (fst (after_failed_polls j st ?h ?env)) st)"
      unfolding after_failed_polls_Suc by (simp only: accumulate.simps pi simp_thms)
  qed
  have a2: "\<not> float_less (accumulate K (fadd elapsed (poll_interval h)) (poll_interval ?h)) timeout"
    using Suc.prems(2) by (simp only: accumulate.simps pi simp_thms)
  from Suc.IH [OF a1 a2, of "Suc polls"]
  show ?case unfolding step by (simp only: after_failed_polls_Suc [symmetric]) simp
qed

lemma accumulate_Suc_right: "accumulate (Suc k) e p = fadd (accumulate k e p) p"
  by (induction k arbitrary: e) simp_all

lemma accumulate_exact:
  assumes "\<forall>j<N. fadd (Finite (of_nat j * p)) p = Finite (of_nat (Suc j) * p)"
  shows "j \<le> N \<Longrightarrow> accumulate j (Finite 0) p = Finite (of_nat j * p)"
proof (induction j)
  case 0
  then show ?case by simp
next
  case (Suc j)
  then have "accumulate j (Finite 0) p = Finite (of_nat j * p)" by simp
  moreover have "fadd (Finite (of_nat j * p)) p = Finite (of_nat (Suc j) * p)"
    using assms Suc.prems by simp
  ultimately show ?case by (simp only: accumulate_Suc_right)
qed

lemma less_ceiling_count:
  fixes t p :: rat
  assumes "0 < p"
  shows "of_nat j * p < t \<longleftrightarrow> j < nat \<lceil>t / p\<rceil>"
proof -
  have "of_nat j * p < t \<longleftrightarrow> of_nat j < t / p" using assms by (simp add: pos_less_divide_eq)
  also have "\<dots> \<longleftrightarrow> of_int (int j) < t / p" by simp
  also have "\<dots> \<longleftrightarrow> int j < \<lceil>t / p\<rceil>" by (simp only: less_ceiling_iff)
  also have "\<dots> \<longleftrightarrow> j < nat \<lceil>t / p\<rceil>" by linarith
  finally show ?thesis .
qed

text \<open>
  Float addition evaluated on the values used below: sums of small integers are exact,
  and repeated addition of the float \<open>0.1\<close> gives the doubles that Python prints as
  \<open>0.1\<close>, \<open>0.2\<close>, \<open>0.30000000000000004\<close>, ..., \<open>0.9999999999999999\<close>, \<open>1.0999999999999999\<close>.
\<close>

lemma floor_rat_numeral: "\<lfloor>(numeral a :: rat) / numeral b\<rfloor> = numeral a div numeral b"
  by (metis floor_divide_of_int_eq of_int_numeral)

lemma ceiling_rat_numeral: "\<lceil>(numeral a :: rat) / numeral b\<rceil> = - ((- numeral a) div numeral b)"
proof -
  have "\<lceil>(numeral a :: rat) / numeral b\<rceil> = - \<lfloor>(of_int (- numeral a) :: rat) / of_int (numeral b)\<rfloor>"
    by (simp add: ceiling_def)
  then show ?thesis by (simp only: floor_divide_of_int_eq)
qed

lemmas float_eval = round_double_def float_exponent_def pow2_def round_half_even_def Let_def
  floor_rat_numeral ceiling_rat_numeral bit_length.simps

lemma fadd_small:
  assumes "round_double (a + p) = v" and "\<bar>v\<bar> < 2 ^ 1024"
  shows "fadd (Finite a) p = Finite v"
proof -
  have "\<not> 2 ^ 1024 \<le> v" and "\<not> v \<le> - (2 ^ 1024)"
    using assms(2) by (simp_all only: abs_less_iff not_le) linarith+
  then show ?thesis unfolding fadd_def pyfloat.case Let_def assms(1) by (simp only: if_False)
qed

lemma fadd_0_2: "fadd (Finite 0) 2 = Finite 2"
  by (rule fadd_small) (simp_all add: float_eval)

lemma fadd_2_2: "fadd (Finite 2) 2 = Finite 4"
  by (rule fadd_small) (simp_all add: float_eval)

lemma fadd_4_2: "fadd (Finite 4) 2 = Finite 6"
  by (rule fadd_small) (simp_all add: float_eval)

lemma fadd_tenth_0: "fadd (Finite 0) float_0_1 = Finite (3602879701896397 / 36028797018963968)"
  unfolding float_0_1_def by (rule fadd_small) (simp_all add: float_eval)

lemma fadd_tenth_1:
  "fadd (Finite (3602879701896397 / 36028797018963968)) float_0_1
     = Finite (3602879701896397 / 18014398509481984)"
  unfolding float_0_1_def by (rule fadd_small) (simp_all add: float_eval)

lemma fadd_tenth_2:
  "fadd (Finite (3602879701896397 / 18014398509481984)) float_0_1
     = Finite (1351079888211149 / 4503599627370496)"
  unfolding float_0_1_def by (rule fadd_small) (simp_all add: float_eval)

lemma fadd_tenth_3:
  "fadd (Finite (1351079888211149 / 4503599627370496)) float_0_1
     = Finite (3602879701896397 / 9007199254740992)"
  unfolding float_0_1_def by (rule fadd_small) (simp_all add: float_eval)

lemma fadd_tenth_4:
  "fadd (Finite (3602879701896397 / 9007199254740992)) float_0_1
     = Finite (1 / 2)"
  unfolding float_0_1_def by (rule fadd_small) (simp_all add: float_eval)

lemma fadd_tenth_5:
  "fadd (Finite (1 / 2)) float_0_1
     = Finite (5404319552844595 / 9007199254740992)"
  unfolding float_0_1_def by (rule fadd_small) (simp_all add: float_eval)

lemma fadd_tenth_6:
  "fadd (Finite (5404319552844595 / 9007199254740992)) float_0_1
     = Finite (3152519739159347 / 4503599627370496)"
  unfolding float_0_1_def by (rule fadd_small) (simp_all add: float_eval)

lemma fadd_tenth_7:
  "fadd (Finite (3152519739159347 / 4503599627370496)) float_0_1
     = Finite (7205759403792793 / 9007199254740992)"
  unfolding float_0_1_def by (rule fadd_small) (simp_all add: float_eval)

lemma fadd_tenth_8:
  "fadd (Finite (7205759403792793 / 9007199254740992)) float_0_1
     = Finite (2026619832316723 / 2251799813685248)"
  unfolding float_0_1_def by (rule fadd_small) (simp_all add: float_eval)

lemma fadd_tenth_9:
  "fadd (Finite (2026619832316723 / 2251799813685248)) float_0_1
     = Finite (9007199254740991 / 9007199254740992)"
  unfolding float_0_1_def by (rule fadd_small) (simp_all add: float_eval)

lemma fadd_tenth_10:
  "fadd (Finite (9007199254740991 / 9007199254740992)) float_0_1
     = Finite (4953959590107545 / 4503599627370496)"
  unfolding float_0_1_def by (rule fadd_small) (simp_all add: float_eval)

lemma accumulate_tenth:
  "accumulate 0 (Finite 0) float_0_1 = Finite 0"
  "accumulate 1 (Finite 0) float_0_1 = Finite (3602879701896397 / 36028797018963968)"
  "accumulate 2 (Finite 0) float_0_1 = Finite (3602879701896397 / 18014398509481984)"
  "accumulate 3 (Finite 0) float_0_1 = Finite (1351079888211149 / 4503599627370496)"
  "accumulate 4 (Finite 0) float_0_1 = Finite (3602879701896397 / 9007199254740992)"
  "accumulate 5 (Finite 0) float_0_1 = Finite (1 / 2)"
  "accumulate 6 (Finite 0) float_0_1 = Finite (5404319552844595 / 9007199254740992)"
  "accumulate 7 (Finite 0) float_0_1 = Finite (3152519739159347 / 4503599627370496)"
  "accumulate 8 (Finite 0) float_0_1 = Finite (7205759403792793 / 9007199254740992)"
  "accumulate 9 (Finite 0) float_0_1 = Finite (2026619832316723 / 2251799813685248)"
  "accumulate 10 (Finite 0) float_0_1 = Finite (9007199254740991 / 9007199254740992)"
  "accumulate 11 (Finite 0) float_0_1 = Finite (4953959590107545 / 4503599627370496)"
  by (simp_all add: eval_nat_numeral fadd_tenth_0 fadd_tenth_1 fadd_tenth_2
      fadd_tenth_3 fadd_tenth_4 fadd_tenth_5 fadd_tenth_6 fadd_tenth_7 fadd_tenth_8
      fadd_tenth_9 fadd_tenth_10)

lemma accumulate_two:
  "accumulate 0 (Finite 0) 2 = Finite 0"
  "accumulate (Suc 0) (Finite 0) 2 = Finite 2"
  "accumulate (Suc (Suc 0)) (Finite 0) 2 = Finite 4"
  by (simp_all only: accumulate.simps fadd_0_2 fadd_2_2)

lemma after_failed_polls_idle:
  "oauth_handler h = Map.empty \<Longrightarrow> after_failed_polls j st h [] = (h, [])"
proof (induction j)
  case 0
  then show ?case by simp
next
  case (Suc j)
  have "h\<lparr>oauth_handler := snd (consume_code st (oauth_handler h))\<rparr> = h"
    using Suc.prems by (simp add: consume_code_def)
  then show ?case using Suc by (simp add: Let_def sleep_def)
qed

text \<open>
  C3 (as amended). With a negotiation present on the handler (otherwise reading its
  state raises \<open>AttributeError\<close>), \<open>wait_for_user_authentication\<close> fails with
  \<open>ValueError\<close> and without polling when the state is absent or empty. Otherwise it
  calls \<open>consume_code(state)\<close> once per round, sleeping one poll interval after each
  failed poll and adding the interval to the float \<open>elapsed\<close>. If the first \<open>k\<close> polls
  find nothing, the \<open>(k+1)\<close>-th finds a code and the accumulated \<open>elapsed\<close> is below the
  timeout at each of these polls, it returns on that poll the negotiation, which is
  also the handler's, with \<open>auth_response_uri\<close> set to
  \<open>redirect_uri?code=<code>&state=<state>\<close> and \<open>redirect_uri\<close> to the configured one,
  the code consumed. If no poll finds a code, it raises the timeout error naming the
  state after exactly \<open>K\<close> polls, \<open>K\<close> being the first count of additions at which the
  accumulated float is no longer below the timeout, and leaves the negotiation alone;
  where the float sums are exact (no rounding), \<open>K\<close> is \<open>ceil(timeout / poll_interval)\<close>.
\<close>

theorem wait_for_user_authentication_outcomes:
  "(negotiation_oauth2 h = Inr o2 \<and> \<not> truthy (state o2) \<longrightarrow>
      wait_for_user_authentication h timeout env
        = Some (Inl (ValueError ''State not found in auth_config''), h, env, 0))
   \<and> (negotiation_oauth2 h = Inr o2 \<and> state o2 = Some st \<and> st \<noteq> []
       \<and> (\<forall>j\<le>k. float_less (accumulate j (Finite 0) (poll_interval h)) timeout)
       \<and> (\<forall>j<k. \<not> truthy (oauth_handler (fst (after_failed_polls j st h env)) st))
       \<and> oauth_handler (fst (after_failed_polls k st h env)) st = Some code \<and> code \<noteq> [] \<longrightarrow>
      (\<exists>h' env' cfg'.
         wait_for_user_authentication h timeout env = Some (Inr cfg', h', env', Suc k)
         \<and> auth_config h' = Some cfg'
         \<and> negotiation_oauth2 h'
             = Inr (o2\<lparr>auth_response_uri :=
                          Some (AuthConfigHandler.redirect_uri h @ ''?code='' @ code @ ''&state='' @ st),
                        OAuth2Auth.redirect_uri := Some (AuthConfigHandler.redirect_uri h)\<rparr>)
         \<and> oauth_handler h' st = None))
   \<and> (negotiation_oauth2 h = Inr o2 \<and> state o2 = Some st \<and> st \<noteq> []
       \<and> (\<forall>j<K. float_less (accumulate j (Finite 0) (poll_interval h)) timeout
                  \<and> \<not> truthy (oauth_handler (fst (after_failed_polls j st h env)) st))
       \<and> \<not> float_less (accumulate K (Finite 0) (poll_interval h)) timeout \<longrightarrow>
      (\<exists>h' env'.
         wait_for_user_authentication h timeout env
           = Some (Inl (TimeoutError timeout st), h', env', K)
         \<and> auth_config h' = auth_config h))
   \<and> (negotiation_oauth2 h = Inr o2 \<and> state o2 = Some st \<and> st \<noteq> []
       \<and> 0 < poll_interval h
       \<and> (\<forall>j < nat \<lceil>timeout / poll_interval h\<rceil>.
             fadd (Finite (of_nat j * poll_interval h)) (poll_interval h)
               = Finite (of_nat (Suc j) * poll_interval h)
             \<and> \<not> truthy (oauth_handler (fst (after_failed_polls j st h env)) st)) \<longrightarrow>
      (\<exists>h' env'.
         wait_for_user_authentication h timeout env
           = Some (Inl (TimeoutError timeout st), h', env', nat \<lceil>timeout / poll_interval h\<rceil>)
         \<and> auth_config h' = auth_config h))"
proof (intro conjI impI)
  assume "negotiation_oauth2 h = Inr o2 \<and> \<not> truthy (state o2)"
  then show "wait_for_user_authentication h timeout env
        = Some (Inl (ValueError ''State not found in auth_config''), h, env, 0)"
    by (simp add: wait_for_user_authentication_def)
next
  assume a: "negotiation_oauth2 h = Inr o2 \<and> state o2 = Some st \<and> st \<noteq> []
       \<and> (\<forall>j\<le>k. float_less (accumulate j (Finite 0) (poll_interval h)) timeout)
       \<and> (\<forall>j<k. \<not> truthy (oauth_handler (fst (after_failed_polls j st h env)) st))
       \<and> oauth_handler (fst (after_failed_polls k st h env)) st = Some code \<and> code \<noteq> []"
  let ?hk = "fst (after_failed_polls k st h env)"
  let ?uri = "AuthConfigHandler.redirect_uri h @ ''?code='' @ code @ ''&state='' @ st"
  have w: "wait_for_user_authentication h timeout env = wait_loop h st timeout (Finite 0) env 0"
    using a by (simp add: wait_for_user_authentication_def truthy_def)
  have hk: "auth_config ?hk = auth_config h"
    "AuthConfigHandler.redirect_uri ?hk = AuthConfigHandler.redirect_uri h"
    using after_failed_polls_fields [of k st h env] by simp_all
  have nk: "negotiation_oauth2 ?hk = Inr o2"
    using a negotiation_oauth2_cong [OF hk(1)] by simp
  obtain cfg where cfg: "complete_auth_config ?hk code st = Inr cfg"
    and neg: "negotiation_oauth2 (?hk\<lparr>oauth_handler := (oauth_handler ?hk)(st := None),
                                          auth_config := Some cfg\<rparr>)
               = Inr (o2\<lparr>auth_response_uri := Some ?uri,
                          OAuth2Auth.redirect_uri := Some (AuthConfigHandler.redirect_uri h)\<rparr>)"
    using complete_auth_config_present [OF nk, of code st "(oauth_handler ?hk)(st := None)"] hk(2)
    by auto
  have cfg': "complete_auth_config h code st = Inr cfg"
    using cfg complete_auth_config_cong [OF hk] by simp
  let ?h' = "?hk\<lparr>oauth_handler := (oauth_handler ?hk)(st := None), auth_config := Some cfg\<rparr>"
  have "wait_loop h st timeout (Finite 0) env 0
          = Some (Inr cfg, ?h', snd (after_failed_polls k st h env), 0 + Suc k)"
    using a cfg' by (intro wait_loop_success) simp_all
  then have "wait_for_user_authentication h timeout env
          = Some (Inr cfg, ?h', snd (after_failed_polls k st h env), Suc k)"
    using w by simp
  moreover have "auth_config ?h' = Some cfg" by simp
  moreover have "oauth_handler ?h' st = None" by simp
  ultimately show "\<exists>h' env' cfg'.
         wait_for_user_authentication h timeout env = Some (Inr cfg', h', env', Suc k)
         \<and> auth_config h' = Some cfg'
         \<and> negotiation_oauth2 h'
             = Inr (o2\<lparr>auth_response_uri := Some ?uri,
                        OAuth2Auth.redirect_uri := Some (AuthConfigHandler.redirect_uri h)\<rparr>)
         \<and> oauth_handler h' st = None"
    using neg by blast
next
  assume a: "negotiation_oauth2 h = Inr o2 \<and> state o2 = Some st \<and> st \<noteq> []
       \<and> (\<forall>j<K. float_less (accumulate j (Finite 0) (poll_interval h)) timeout
                  \<and> \<not> truthy (oauth_handler (fst (after_failed_polls j st h env)) st))
       \<and> \<not> float_less (accumulate K (Finite 0) (poll_interval h)) timeout"
  have w: "wait_for_user_authentication h timeout env = wait_loop h st timeout (Finite 0) env 0"
    using a by (simp add: wait_for_user_authentication_def truthy_def)
  have "wait_loop h st timeout (Finite 0) env 0
          = Some (Inl (TimeoutError timeout st), fst (after_failed_polls K st h env),
                  snd (after_failed_polls K st h env), 0 + K)"
    using a by (intro wait_loop_timeout) simp_all
  then have "wait_for_user_authentication h timeout env
          = Some (Inl (TimeoutError timeout st), fst (after_failed_polls K st h env),
                  snd (after_failed_polls K st h env), K)"
    using w by simp
  moreover have "auth_config (fst (after_failed_polls K st h env)) = auth_config h"
    using after_failed_polls_fields by blast
  ultimately show "\<exists>h' env'.
         wait_for_user_authentication h timeout env
           = Some (Inl (TimeoutError timeout st), h', env', K)
         \<and> auth_config h' = auth_config h"
    by blast
next
  assume a: "negotiation_oauth2 h = Inr o2 \<and> state o2 = Some st \<and> st \<noteq> []
       \<and> 0 < poll_interval h
       \<and> (\<forall>j < nat \<lceil>timeout / poll_interval h\<rceil>.
             fadd (Finite (of_nat j * poll_interval h)) (poll_interval h)
               = Finite (of_nat (Suc j) * poll_interval h)
             \<and> \<not> truthy (oauth_handler (fst (after_failed_polls j st h env)) st))"
  let ?p = "poll_interval h"
  let ?N = "nat \<lceil>timeout / ?p\<rceil>"
  have ex: "\<forall>j<?N. fadd (Finite (of_nat j * ?p)) ?p = Finite (of_nat (Suc j) * ?p)"
    using a by blast
  have acc: "\<And>j. j \<le> ?N \<Longrightarrow> accumulate j (Finite 0) ?p = Finite (of_nat j * ?p)"
    by (rule accumulate_exact [OF ex])
  have pos: "0 < ?p" using a by blast
  have w: "wait_for_user_authentication h timeout env = wait_loop h st timeout (Finite 0) env 0"
    using a by (simp add: wait_for_user_authentication_def truthy_def)
  have b1: "\<forall>j<?N. float_less (accumulate j (Finite 0) ?p) timeout
                  \<and> \<not> truthy (oauth_handler (fst (after_failed_polls j st h env)) st)"
  proof (intro allI impI)
    fix j assume j: "j < ?N"
    then have "of_nat j * ?p < timeout" using less_ceiling_count [OF pos, of j timeout] by simp
    then have "float_less (accumulate j (Finite 0) ?p) timeout"
      using acc [of j] j by (simp add: float_less_def)
    then show "float_less (accumulate j (Finite 0) ?p) timeout
                  \<and> \<not> truthy (oauth_handler (fst (after_failed_polls j st h env)) st)"
      using a j by blast
  qed
  have b2: "\<not> float_less (accumulate ?N (Finite 0) ?p) timeout"
  proof -
    have "\<not> of_nat ?N * ?p < timeout" using less_ceiling_count [OF pos, of ?N timeout] by simp
    then show ?thesis using acc [of ?N] by (simp add: float_less_def)
  qed
  have "wait_loop h st timeout (Finite 0) env 0
          = Some (Inl (TimeoutError timeout st), fst (after_failed_polls ?N st h env),
                  snd (after_failed_polls ?N st h env), 0 + ?N)"
    by (rule wait_loop_timeout [OF b1 b2])
  then have "wait_for_user_authentication h timeout env
          = Some (Inl (TimeoutError timeout st), fst (after_failed_polls ?N st h env),
                  snd (after_failed_polls ?N st h env), ?N)"
    using w by simp
  moreover have "auth_config (fst (after_failed_polls ?N st h env)) = auth_config h"
    using after_failed_polls_fields by blast
  ultimately show "\<exists>h' env'.
         wait_for_user_authentication h timeout env
           = Some (Inl (TimeoutError timeout st), h', env', ?N)
         \<and> auth_config h' = auth_config h"
    by blast
qed

theorem wait_for_user_authentication_outcomes_witness:
  "wait_for_user_authentication
       (example_handler (Some example_auth_config_without_state) Map.empty 2) 300 []
     = Some (Inl (ValueError ''State not found in auth_config''),
             example_handler (Some example_auth_config_without_state) Map.empty 2, [], 0)
   \<and> (\<exists>h' env' cfg'.
         wait_for_user_authentication (example_handler (Some example_auth_config) Map.empty 2) 300
             [[], [example_callback]]
           = Some (Inr cfg', h', env', 3)
         \<and> auth_config h' = Some cfg'
         \<and> negotiation_oauth2 h'
             = Inr \<lparr>auth_uri = Some ''https://idp.example/auth?client_id=app'',
                    state = Some ''xyz'',
                    auth_response_uri = Some ''http://localhost:8001/callback?code=abc&state=xyz'',
                    OAuth2Auth.redirect_uri = Some ''http://localhost:8001/callback''\<rparr>
         \<and> oauth_handler h' ''xyz'' = None)
   \<and> (\<exists>h' env'.
         wait_for_user_authentication
             (example_handler (Some example_auth_config) Map.empty float_0_1) (1 / 5) []
           = Some (Inl (TimeoutError (1 / 5) ''xyz''), h', env', 2)
         \<and> auth_config h' = Some example_auth_config)
   \<and> (\<exists>h' env'.
         wait_for_user_authentication (example_handler (Some example_auth_config) Map.empty 2) 6 []
           = Some (Inl (TimeoutError 6 ''xyz''), h', env', 3)
         \<and> auth_config h' = Some example_auth_config)"
proof -
  let ?h0 = "example_handler (Some example_auth_config_without_state) Map.empty 2"
  let ?h2 = "example_handler (Some example_auth_config) Map.empty 2"
  let ?h3 = "example_handler (Some example_auth_config) Map.empty float_0_1"
  let ?o0 = "\<lparr>auth_uri = Some ''https://idp.example/auth?client_id=app'',
              state = None, auth_response_uri = None, OAuth2Auth.redirect_uri = None\<rparr>"
  let ?o2 = "\<lparr>auth_uri = Some ''https://idp.example/auth?client_id=app'',
              state = Some ''xyz'', auth_response_uri = None, OAuth2Auth.redirect_uri = None\<rparr>"
  let ?env = "[[], [example_callback]]"
  have n0: "negotiation_oauth2 ?h0 = Inr ?o0"
    by (simp add: negotiation_oauth2_def example_handler_def example_auth_config_without_state_def)
  have n2: "negotiation_oauth2 ?h2 = Inr ?o2"
    by (simp add: negotiation_oauth2_def example_handler_def example_auth_config_def)
  have n3: "negotiation_oauth2 ?h3 = Inr ?o2"
    by (simp add: negotiation_oauth2_def example_handler_def example_auth_config_def)
  have p2: "poll_interval ?h2 = 2" by (simp add: example_handler_def)
  have p3: "poll_interval ?h3 = float_0_1" by (simp add: example_handler_def)
  have s0: "after_failed_polls 0 ''xyz'' ?h2 ?env = (?h2, ?env)" by simp
  have s1: "after_failed_polls (Suc 0) ''xyz'' ?h2 ?env = (?h2, [[example_callback]])"
    by (simp add: example_handler_def Let_def sleep_def consume_code_def deliver_def)
  have s2: "after_failed_polls (Suc (Suc 0)) ''xyz'' ?h2 ?env
            = (example_handler (Some example_auth_config) [''xyz'' \<mapsto> ''abc''] 2, [])"
    by (simp add: example_handler_def Let_def sleep_def consume_code_def deliver_def
        handle_callback_def example_callback_def truthy_def)
  have idle2: "\<And>j. after_failed_polls j ''xyz'' ?h2 [] = (?h2, [])"
    by (rule after_failed_polls_idle) (simp add: example_handler_def)
  have idle3: "\<And>j. after_failed_polls j ''xyz'' ?h3 [] = (?h3, [])"
    by (rule after_failed_polls_idle) (simp add: example_handler_def)
  have q0: "negotiation_oauth2 ?h0 = Inr ?o0 \<and> \<not> truthy (state ?o0)"
    using n0 by (simp add: truthy_def)
  have r0: "wait_for_user_authentication ?h0 300 []
     = Some (Inl (ValueError ''State not found in auth_config''), ?h0, [], 0)"
    by (rule wait_for_user_authentication_outcomes
          [of ?h0 ?o0 300 "[]", THEN conjunct1, THEN mp, OF q0])
  have le2: "\<And>P. (\<forall>j\<le>Suc (Suc 0). P j) = (P 0 \<and> P (Suc 0) \<and> P (Suc (Suc 0)))"
    by (auto simp add: le_Suc_eq)
  have q2: "negotiation_oauth2 ?h2 = Inr ?o2 \<and> state ?o2 = Some ''xyz'' \<and> ''xyz'' \<noteq> []
       \<and> (\<forall>j\<le>Suc (Suc 0). float_less (accumulate j (Finite 0) (poll_interval ?h2)) 300)
       \<and> (\<forall>j<Suc (Suc 0). \<not> truthy (oauth_handler (fst (after_failed_polls j ''xyz'' ?h2 ?env)) ''xyz''))
       \<and> oauth_handler (fst (after_failed_polls (Suc (Suc 0)) ''xyz'' ?h2 ?env)) ''xyz'' = Some ''abc''
       \<and> ''abc'' \<noteq> []"
    unfolding le2 All_less_Suc p2 accumulate_two s0 s1 s2 n2
    by (simp add: example_handler_def float_less_def truthy_def)
  have r2: "\<exists>h' env' cfg'.
         wait_for_user_authentication ?h2 300 ?env = Some (Inr cfg', h', env', 3)
         \<and> auth_config h' = Some cfg'
         \<and> negotiation_oauth2 h'
             = Inr \<lparr>auth_uri = Some ''https://idp.example/auth?client_id=app'',
                    state = Some ''xyz'',
                    auth_response_uri = Some ''http://localhost:8001/callback?code=abc&state=xyz'',
                    OAuth2Auth.redirect_uri = Some ''http://localhost:8001/callback''\<rparr>
         \<and> oauth_handler h' ''xyz'' = None"
    using wait_for_user_authentication_outcomes
      [of ?h2 ?o2 300 ?env "''xyz''" "Suc (Suc 0)" "''abc''",
       THEN conjunct2, THEN conjunct1, THEN mp, OF q2]
    by (simp add: example_handler_def numeral_3_eq_3)
  have q3: "negotiation_oauth2 ?h3 = Inr ?o2 \<and> state ?o2 = Some ''xyz'' \<and> ''xyz'' \<noteq> []
       \<and> (\<forall>j<2. float_less (accumulate j (Finite 0) (poll_interval ?h3)) (1 / 5)
                  \<and> \<not> truthy (oauth_handler (fst (after_failed_polls j ''xyz'' ?h3 [])) ''xyz''))
       \<and> \<not> float_less (accumulate 2 (Finite 0) (poll_interval ?h3)) (1 / 5)"
    unfolding idle3 p3 n3 accumulate_tenth
    by (simp add: eval_nat_numeral All_less_Suc fadd_tenth_0 float_less_def truthy_def
        example_handler_def)
  have r3: "\<exists>h' env'.
         wait_for_user_authentication ?h3 (1 / 5) []
           = Some (Inl (TimeoutError (1 / 5) ''xyz''), h', env', 2)
         \<and> auth_config h' = Some example_auth_config"
    using wait_for_user_authentication_outcomes
      [of ?h3 ?o2 "1 / 5" "[]" "''xyz''" _ _ 2,
       THEN conjunct2, THEN conjunct2, THEN conjunct1, THEN mp, OF q3]
    by (simp add: example_handler_def)
  have c4: "nat \<lceil>6 / poll_interval ?h2\<rceil> = 3" unfolding p2 by simp
  have q4: "negotiation_oauth2 ?h2 = Inr ?o2 \<and> state ?o2 = Some ''xyz'' \<and> ''xyz'' \<noteq> []
       \<and> 0 < poll_interval ?h2
       \<and> (\<forall>j < nat \<lceil>6 / poll_interval ?h2\<rceil>.
             fadd (Finite (of_nat j * poll_interval ?h2)) (poll_interval ?h2)
               = Finite (of_nat (Suc j) * poll_interval ?h2)
             \<and> \<not> truthy (oauth_handler (fst (after_failed_polls j ''xyz'' ?h2 [])) ''xyz''))"
    unfolding c4 idle2 n2 unfolding p2
    by (simp add: eval_nat_numeral All_less_Suc fadd_0_2 fadd_2_2 fadd_4_2 truthy_def
        example_handler_def)
  have r4: "\<exists>h' env'.
         wait_for_user_authentication ?h2 6 []
           = Some (Inl (TimeoutError 6 ''xyz''), h', env', 3)
         \<and> auth_config h' = Some example_auth_config"
    using wait_for_user_authentication_outcomes
      [of ?h2 ?o2 6 "[]" "''xyz''",
       THEN conjunct2, THEN conjunct2, THEN conjunct2, THEN mp, OF q4]
    unfolding c4 by (simp add: example_handler_def)
  from r0 r2 r3 r4 show ?thesis by blast
qed

text \<open>
  The claim as first stated fails. With poll interval \<open>0.1\<close> and timeout \<open>1\<close> and no code
  arriving the code polls 11 times, one more than \<open>ceil(timeout / poll_interval) = 10\<close>:
  ten additions of the float \<open>0.1\<close> give \<open>0.9999999999999999\<close>, still below \<open>1\<close>. And a
  handler without a negotiation (as the application constructs it) raises
  \<open>AttributeError\<close>, not the invalid-state error.
\<close>

theorem wait_for_user_authentication_float_counterexample:
  "wait_for_user_authentication (example_handler (Some example_auth_config) Map.empty float_0_1) 1 []
     = Some (Inl (TimeoutError 1 ''xyz''),
             example_handler (Some example_auth_config) Map.empty float_0_1, [], 11)
   \<and> nat \<lceil>1 / float_0_1\<rceil> = 10
   \<and> wait_for_user_authentication (example_handler None Map.empty 2) 300 []
       = Some (Inl (AttributeError ''NoneType object has no attribute exchanged_auth_credential''),
               example_handler None Map.empty 2, [], 0)"
proof -
  let ?h = "example_handler (Some example_auth_config) Map.empty float_0_1"
  have idle: "\<And>j. after_failed_polls j ''xyz'' ?h [] = (?h, [])"
    by (rule after_failed_polls_idle) (simp add: example_handler_def)
  have p: "poll_interval ?h = float_0_1" by (simp add: example_handler_def)
  have b1: "\<forall>j<11. float_less (accumulate j (Finite 0) (poll_interval ?h)) 1
                  \<and> \<not> truthy (oauth_handler (fst (after_failed_polls j ''xyz'' ?h [])) ''xyz'')"
    unfolding idle p
    by (simp add: eval_nat_numeral All_less_Suc fadd_tenth_0 fadd_tenth_1
        fadd_tenth_2 fadd_tenth_3 fadd_tenth_4 fadd_tenth_5 fadd_tenth_6 fadd_tenth_7
        fadd_tenth_8 fadd_tenth_9 float_less_def truthy_def example_handler_def)
  have b2: "\<not> float_less (accumulate 11 (Finite 0) (poll_interval ?h)) 1"
    unfolding p accumulate_tenth by (simp add: float_less_def)
  have "wait_loop ?h ''xyz'' 1 (Finite 0) [] 0
          = Some (Inl (TimeoutError 1 ''xyz''), fst (after_failed_polls 11 ''xyz'' ?h []),
                  snd (after_failed_polls 11 ''xyz'' ?h []), 0 + 11)"
    by (rule wait_loop_timeout [OF b1 b2])
  then have l: "wait_loop ?h ''xyz'' 1 (Finite 0) [] 0 = Some (Inl (TimeoutError 1 ''xyz''), ?h, [], 11)"
    unfolding idle by simp
  have n: "negotiation_oauth2 ?h
             = Inr \<lparr>auth_uri = Some ''https://idp.example/auth?client_id=app'',
                    state = Some ''xyz'', auth_response_uri = None,
                    OAuth2Auth.redirect_uri = None\<rparr>"
    by (simp add: negotiation_oauth2_def example_handler_def example_auth_config_def)
  have r1: "wait_for_user_authentication ?h 1 [] = Some (Inl (TimeoutError 1 ''xyz''), ?h, [], 11)"
    unfolding wait_for_user_authentication_def n using l by (simp add: truthy_def)
  have r2: "nat \<lceil>1 / float_0_1\<rceil> = 10"
    unfolding float_0_1_def by (simp add: ceiling_rat_numeral)
  have r3: "wait_for_user_authentication (example_handler None Map.empty 2) 300 []
       = Some (Inl (AttributeError ''NoneType object has no attribute exchanged_auth_credential''),
               example_handler None Map.empty 2, [], 0)"
    by (simp add: wait_for_user_authentication_def negotiation_oauth2_def example_handler_def)
  from r1 r2 r3 show ?thesis by blast
qed

section \<open>Properties of the auth interceptor\<close>

text \<open>
  C2 (as amended). For an interceptor that has a handler and an agent name, and an auth
  event whose function call has a non-empty id and whose \<open>authConfig\<close> argument is a
  non-empty dict that validates to a negotiation with an authorization URI and a
  state, \<open>intercept_auth_event\<close> yields, once the blocking wait has returned the updated
  negotiation, exactly two events in this order and then ends: the user-facing event
  with the text \<open>AUTH_REQUIRED: <authorization_uri>&redirect_uri=<redirect_uri>\<close>, then
  the resumption event whose only part is a function response named
  \<open>adk_request_credential\<close>, with the id of the original function call and the dump of
  the updated negotiation as payload. Both events carry the agent name as author.
\<close>

theorem intercept_auth_event_two_events:
  assumes "get_auth_request_function_call event = Some fc"
    and "fc_id fc = Some cid" and "cid \<noteq> []"
    and "args fc = Some a" and "map_of a ''authConfig'' = Some (PyDict d)" and "d \<noteq> []"
    and "auth_config_handler self = Some h"
    and "agent_name self = Some name"
    and "model_validate lib d = Inr cfg"
    and "exchanged_auth_credential cfg = Some cred" and "oauth2 cred = Some o2"
    and "auth_uri o2 = Some uri" and "uri \<noteq> []"
    and "state o2 = Some st" and "st \<noteq> []"
    and "wait_for_user_authentication (h\<lparr>auth_config := Some cfg\<rparr>) 300 env
           = Some (Inr cfg', h', env', n)"
  shows "intercept_auth_event lib self event env
     = Some ([\<lparr>author = name,
               content = Some \<lparr>role = Some ''model'',
                               parts = Some [\<lparr>part_text = Some (''AUTH_REQUIRED: '' @ uri
                                                @ ''&redirect_uri='' @ AuthConfigHandler.redirect_uri h),
                                              function_call = None,
                                              function_response = None\<rparr>]\<rparr>,
               long_running_tool_ids = None\<rparr>,
              \<lparr>author = name,
               content = Some \<lparr>role = Some ''user'',
                               parts = Some [\<lparr>part_text = None,
                                              function_call = None,
                                              function_response =
                                                Some \<lparr>fr_id = Some cid,
                                                      fr_name = Some ''adk_request_credential'',
                                                      response = Some (model_dump lib cfg')\<rparr>\<rparr>]\<rparr>,
               long_running_tool_ids = None\<rparr>],
             None, self\<lparr>auth_config_handler := Some h'\<rparr>, env', n)"
proof -
  let ?self1 = "self\<lparr>auth_config_handler := Some (h\<lparr>auth_config := Some cfg\<rparr>)\<rparr>"
  let ?ask = "\<lparr>author = name,
               content = Some \<lparr>role = Some ''model'',
                               parts = Some [\<lparr>part_text = Some (''AUTH_REQUIRED: '' @ uri
                                                @ ''&redirect_uri='' @ AuthConfigHandler.redirect_uri h),
                                              function_call = None,
                                              function_response = None\<rparr>]\<rparr>,
               long_running_tool_ids = None\<rparr>"
  have ne: "a \<noteq> []" using assms(5) by auto
  have neg: "negotiation_oauth2 (h\<lparr>auth_config := Some cfg\<rparr>) = Inr o2"
    using assms(10,11) by (simp add: negotiation_oauth2_def)
  have ask: "ask_user_for_authentication ?self1 = Inr ?ask"
    using assms(8,12-15) neg
    by (simp add: ask_user_for_authentication_def new_event_def truthy_def Let_def)
  have b: "intercept_begin lib self event = (Inr (?ask, cid), ?self1)"
    using assms(1-7,9) ne ask
    by (simp add: intercept_begin_def is_auth_event_def truthy_def set_auth_config_def Let_def)
  have r: "intercept_resume lib ?self1 cid env
      = Some (create_event_with_code_credentials lib (self\<lparr>auth_config_handler := Some h'\<rparr>) cid cfg',
              self\<lparr>auth_config_handler := Some h'\<rparr>, env', n)"
    using assms(16) by (simp add: intercept_resume_def Let_def)
  show ?thesis
    using assms(8)
    by (simp add: intercept_auth_event_def b r create_event_with_code_credentials_def new_event_def)
qed

theorem intercept_auth_event_two_events_witness:
  "intercept_auth_event
     \<lparr>model_validate = (\<lambda>d. Inr example_auth_config),
      model_dump = (\<lambda>c. [(''authResponseUri'',
                           case negotiation_oauth2 (example_handler (Some c) Map.empty 2) of
                             Inl e \<Rightarrow> PyNone
                           | Inr o2 \<Rightarrow> (case auth_response_uri o2 of
                                          None \<Rightarrow> PyNone | Some u \<Rightarrow> PyStr u))])\<rparr>
     \<lparr>auth_config_handler = Some (example_handler None [''xyz'' \<mapsto> ''abc''] 2),
      agent_name = Some ''gmail_agent''\<rparr>
     \<lparr>author = ''gmail_agent'',
      content = Some \<lparr>role = Some ''model'',
                      parts = Some [\<lparr>part_text = None,
                                     function_call =
                                       Some \<lparr>fc_id = Some ''call-1'',
                                             fc_name = Some ''adk_request_credential'',
                                             args = Some [(''authConfig'',
                                                           PyDict [(''authScheme'', PyStr ''oauth2'')])]\<rparr>,
                                     function_response = None\<rparr>]\<rparr>,
      long_running_tool_ids = Some {''call-1''}\<rparr>
     []
   = Some ([\<lparr>author = ''gmail_agent'',
             content = Some \<lparr>role = Some ''model'',
                             parts = Some [\<lparr>part_text = Some
                                 ''AUTH_REQUIRED: https://idp.example/auth?client_id=app&redirect_uri=http://localhost:8001/callback'',
                                            function_call = None,
                                            function_response = None\<rparr>]\<rparr>,
             long_running_tool_ids = None\<rparr>,
            \<lparr>author = ''gmail_agent'',
             content = Some \<lparr>role = Some ''user'',
                             parts = Some [\<lparr>part_text = None,
                                            function_call = None,
                                            function_response =
                                              Some \<lparr>fr_id = Some ''call-1'',
                                                    fr_name = Some ''adk_request_credential'',
                                                    response = Some [(''authResponseUri'',
                                                      PyStr ''http://localhost:8001/callback?code=abc&state=xyz'')]\<rparr>\<rparr>]\<rparr>,
             long_running_tool_ids = None\<rparr>],
           None,
           \<lparr>auth_config_handler =
              Some (example_handler
                      (Some \<lparr>exchanged_auth_credential =
                         Some \<lparr>oauth2 =
                           Some \<lparr>auth_uri = Some ''https://idp.example/auth?client_id=app'',
                                 state = Some ''xyz'',
                                 auth_response_uri =
                                   Some ''http://localhost:8001/callback?code=abc&state=xyz'',
                                 OAuth2Auth.redirect_uri = Some ''http://localhost:8001/callback''\<rparr>\<rparr>\<rparr>)
                      Map.empty 2),
            agent_name = Some ''gmail_agent''\<rparr>,
           [], 1)"
proof -
  let ?lib = "\<lparr>model_validate = (\<lambda>d. Inr example_auth_config),
      model_dump = (\<lambda>c. [(''authResponseUri'',
                           case negotiation_oauth2 (example_handler (Some c) Map.empty 2) of
                             Inl e \<Rightarrow> PyNone
                           | Inr o2 \<Rightarrow> (case auth_response_uri o2 of
                                          None \<Rightarrow> PyNone | Some u \<Rightarrow> PyStr u))])\<rparr>"
  let ?h = "example_handler None [''xyz'' \<mapsto> ''abc''] 2"
  let ?self = "\<lparr>auth_config_handler = Some ?h, agent_name = Some ''gmail_agent''\<rparr>"
  let ?fc = "\<lparr>fc_id = Some ''call-1'', fc_name = Some ''adk_request_credential'',
              args = Some [(''authConfig'', PyDict [(''authScheme'', PyStr ''oauth2'')])]\<rparr>"
  let ?event = "\<lparr>author = ''gmail_agent'',
      content = Some \<lparr>role = Some ''model'',
                      parts = Some [\<lparr>part_text = None, function_call = Some ?fc,
                                     function_response = None\<rparr>]\<rparr>,
      long_running_tool_ids = Some {''call-1''}\<rparr>"
  let ?o2 = "\<lparr>auth_uri = Some ''https://idp.example/auth?client_id=app'',
              state = Some ''xyz'', auth_response_uri = None, OAuth2Auth.redirect_uri = None\<rparr>"
  let ?cred = "\<lparr>oauth2 = Some ?o2\<rparr>"
  let ?h1 = "example_handler (Some example_auth_config) [''xyz'' \<mapsto> ''abc''] 2"
  let ?cfg' = "\<lparr>exchanged_auth_credential =
                 Some \<lparr>oauth2 =
                   Some \<lparr>auth_uri = Some ''https://idp.example/auth?client_id=app'',
                         state = Some ''xyz'',
                         auth_response_uri =
                           Some ''http://localhost:8001/callback?code=abc&state=xyz'',
                         OAuth2Auth.redirect_uri = Some ''http://localhost:8001/callback''\<rparr>\<rparr>\<rparr>"
  let ?h' = "example_handler (Some ?cfg') Map.empty 2"
  have a1: "get_auth_request_function_call ?event = Some ?fc"
    by (simp add: get_auth_request_function_call_def is_auth_request_part_def)
  have a2: "fc_id ?fc = Some ''call-1''" by simp
  have a3: "''call-1'' \<noteq> []" by simp
  have a4: "args ?fc = Some [(''authConfig'', PyDict [(''authScheme'', PyStr ''oauth2'')])]" by simp
  have a5: "map_of [(''authConfig'', PyDict [(''authScheme'', PyStr ''oauth2'')])] ''authConfig''
              = Some (PyDict [(''authScheme'', PyStr ''oauth2'')])" by simp
  have a6: "[(''authScheme'', PyStr ''oauth2'')] \<noteq> []" by simp
  have a7: "auth_config_handler ?self = Some ?h" by simp
  have a8: "agent_name ?self = Some ''gmail_agent''" by simp
  have a9: "model_validate ?lib [(''authScheme'', PyStr ''oauth2'')] = Inr example_auth_config" by simp
  have a10: "exchanged_auth_credential example_auth_config = Some ?cred"
    by (simp add: example_auth_config_def)
  have a11: "oauth2 ?cred = Some ?o2" by simp
  have a12: "auth_uri ?o2 = Some ''https://idp.example/auth?client_id=app''" by simp
  have a13: "''https://idp.example/auth?client_id=app'' \<noteq> []" by simp
  have a14: "state ?o2 = Some ''xyz''" by simp
  have a15: "''xyz'' \<noteq> []" by simp
  have a16: "wait_for_user_authentication (?h\<lparr>auth_config := Some example_auth_config\<rparr>) 300 []
           = Some (Inr ?cfg', ?h', [], 1)"
  proof -
    have e: "?h\<lparr>auth_config := Some example_auth_config\<rparr> = ?h1" by (simp add: example_handler_def)
    have c: "complete_auth_config ?h1 ''abc'' ''xyz'' = Inr ?cfg'"
      by (simp add: complete_auth_config_def example_handler_def example_auth_config_def Let_def)
    have "wait_loop ?h1 ''xyz'' 300 (Finite 0) [] 0
            = Some (Inr ?cfg', ?h1\<lparr>oauth_handler := (oauth_handler ?h1)(''xyz'' := None),
                                 auth_config := Some ?cfg'\<rparr>, [], Suc 0)"
      by (rule wait_loop_found [OF _ _ _ c]) (simp_all add: example_handler_def float_less_def)
    then show ?thesis
      unfolding e
      by (simp add: wait_for_user_authentication_def negotiation_oauth2_def example_handler_def
          example_auth_config_def truthy_def)
  qed
  have "intercept_auth_event ?lib ?self ?event []
     = Some ([\<lparr>author = ''gmail_agent'',
               content = Some \<lparr>role = Some ''model'',
                               parts = Some [\<lparr>part_text = Some (''AUTH_REQUIRED: ''
                                                @ ''https://idp.example/auth?client_id=app''
                                                @ ''&redirect_uri='' @ AuthConfigHandler.redirect_uri ?h),
                                              function_call = None,
                                              function_response = None\<rparr>]\<rparr>,
               long_running_tool_ids = None\<rparr>,
              \<lparr>author = ''gmail_agent'',
               content = Some \<lparr>role = Some ''user'',
                               parts = Some [\<lparr>part_text = None,
                                              function_call = None,
                                              function_response =
                                                Some \<lparr>fr_id = Some ''call-1'',
                                                      fr_name = Some ''adk_request_credential'',
                                                      response = Some (model_dump ?lib ?cfg')\<rparr>\<rparr>]\<rparr>,
               long_running_tool_ids = None\<rparr>],
             None, ?self\<lparr>auth_config_handler := Some ?h'\<rparr>, [], 1)"
    by (rule intercept_auth_event_two_events
          [OF a1 a2 a3 a4 a5 a6 a7 a8 a9 a10 a11 a12 a13 a14 a15 a16])
  then show ?thesis
    by (simp add: example_handler_def negotiation_oauth2_def)
qed

text \<open>
  The claim as first stated fails for an interceptor built without an agent name (the
  default of the dataclass): the same auth event and negotiation yield no event at all,
  since building the user-facing event raises a validation error.
\<close>

theorem intercept_auth_event_no_agent_name_counterexample:
  "intercept_auth_event
     \<lparr>model_validate = (\<lambda>d. Inr example_auth_config), model_dump = (\<lambda>c. [])\<rparr>
     \<lparr>auth_config_handler = Some (example_handler None [''xyz'' \<mapsto> ''abc''] 2),
      agent_name = None\<rparr>
     \<lparr>author = ''gmail_agent'',
      content = Some \<lparr>role = Some ''model'',
                      parts = Some [\<lparr>part_text = None,
                                     function_call =
                                       Some \<lparr>fc_id = Some ''call-1'',
                                             fc_name = Some ''adk_request_credential'',
                                             args = Some [(''authConfig'',
                                                           PyDict [(''authScheme'', PyStr ''oauth2'')])]\<rparr>,
                                     function_response = None\<rparr>]\<rparr>,
      long_running_tool_ids = Some {''call-1''}\<rparr>
     []
   = Some ([], Some (ValidationError ''author: Input should be a valid string''),
           \<lparr>auth_config_handler =
              Some (example_handler (Some example_auth_config) [''xyz'' \<mapsto> ''abc''] 2),
            agent_name = None\<rparr>,
           [], 0)"
  by (simp add: intercept_auth_event_def intercept_begin_def is_auth_event_def
      get_auth_request_function_call_def is_auth_request_part_def truthy_def set_auth_config_def
      ask_user_for_authentication_def negotiation_oauth2_def new_event_def example_handler_def
      example_auth_config_def Let_def)

end
